theory Spec2Isabelle
  imports Complex_Main "HOL-Library.Word" "HOL-Library.Monad_Syntax"
begin

unbundle bit_operations_syntax

section \<open>C library arithmetic on samples\<close>

text \<open>
  Samples, phases, times and levels are C \<^verbatim>\<open>float\<close>s and \<^verbatim>\<open>double\<close>s in the source.  They are
  modelled as exact reals: rounding, infinities and NaN are outside the model, except in
  the rectifier, where the rounding of a quotient decides a branch and the arithmetic is
  that of \<^verbatim>\<open>float\<close> (see the end of this section).
  \<^verbatim>\<open>(int)x\<close> and the integer part taken by \<^verbatim>\<open>fmod\<close> truncate towards zero.
\<close>

definition c_trunc :: "real \<Rightarrow> int" where
  "c_trunc x = (if 0 \<le> x then \<lfloor>x\<rfloor> else \<lceil>x\<rceil>)"

text \<open>
  \<^verbatim>\<open>fmod(x, y)\<close> is \<^verbatim>\<open>x - n * y\<close> with \<^verbatim>\<open>n\<close> the quotient truncated towards zero; the result has
  the sign of \<^verbatim>\<open>x\<close>.  For \<^verbatim>\<open>y = 0\<close> the C function returns NaN; every use below is guarded
  by a positive divisor.
\<close>

definition fmod :: "real \<Rightarrow> real \<Rightarrow> real" where
  "fmod x y = x - y * of_int (c_trunc (x / y))"

text \<open>The C remainder \<^verbatim>\<open>a % b\<close> on \<^verbatim>\<open>int\<close>: the quotient truncates, the sign follows \<^verbatim>\<open>a\<close>.\<close>

definition c_rem :: "int \<Rightarrow> int \<Rightarrow> int" where
  "c_rem a b = sgn a * (\<bar>a\<bar> mod \<bar>b\<bar>)"

text \<open>\<^verbatim>\<open>round(x)\<close> rounds to the nearest integer, halves away from zero.\<close>

definition c_round :: "real \<Rightarrow> real" where
  "c_round x = (if 0 \<le> x then of_int \<lfloor>x + 1 / 2\<rfloor> else of_int \<lceil>x - 1 / 2\<rceil>)"

text \<open>
  The C \<^verbatim>\<open>float\<close>: IEEE 754 binary32, 24 bits of precision, rounding to nearest with ties to
  even.  \<open>float_exponent x\<close> is the integer part of the binary logarithm of \<open>\<bar>x\<bar>\<close>, computed
  from the length in bits of an integer; below \<open>pow2 (- 126)\<close> the spacing of the subnormal
  numbers applies.  \<open>to_float x\<close> is the float an
  operation with the exact result \<open>x\<close> returns, \<open>None\<close> when that is an infinity.
\<close>

fun bit_length :: "nat \<Rightarrow> nat" where
  "bit_length n = (if n = 0 then 0 else Suc (bit_length (n div 2)))"

declare bit_length.simps [simp del]

definition pow2 :: "int \<Rightarrow> real" where
  "pow2 e = (if 0 \<le> e then 2 ^ nat e else 1 / 2 ^ nat (- e))"

definition float_exponent :: "real \<Rightarrow> int" where
  "float_exponent x =
     (if 1 \<le> \<bar>x\<bar> then int (bit_length (nat \<lfloor>\<bar>x\<bar>\<rfloor>)) - 1
      else - int (bit_length (nat (\<lceil>1 / \<bar>x\<bar>\<rceil> - 1))))"

definition float_round :: "real \<Rightarrow> real" where
  "float_round x =
     (if x = 0 then 0
      else
        (let e = max (float_exponent x) (- 126);
             ulp = pow2 (e - 23);
             q = x / ulp;
             n = \<lfloor>q\<rfloor>;
             m = (if q - of_int n < 1 / 2 then n
                  else if q - of_int n > 1 / 2 then n + 1
                  else if even n then n else n + 1)
         in of_int m * ulp))"

definition FLT_MAX :: real where
  "FLT_MAX = (2 - pow2 (- 23)) * pow2 127"

definition to_float :: "real \<Rightarrow> real option" where
  "to_float x = (let r = float_round x in if \<bar>r\<bar> \<le> FLT_MAX then Some r else None)"

text \<open>
  \<^verbatim>\<open>(int)x\<close> of a floating-point value: the truncated value if a 32-bit \<^verbatim>\<open>int\<close> holds it,
  undefined (\<open>None\<close>) otherwise.
\<close>

definition int_cast :: "real \<Rightarrow> int option" where
  "int_cast x = (let n = c_trunc x in if - (2 ^ 31) \<le> n \<and> n < 2 ^ 31 then Some n else None)"

section \<open>Generators (lib/generators.h)\<close>

text \<open>
  \<^verbatim>\<open>class Generator\<close>: the output range.  Subclasses extend the record, so a function on
  \<open>'a Generator_scheme\<close> is a method inherited by every subclass.
\<close>

record Generator =
  minValue :: real
  maxValue :: real

definition Generator_new :: Generator where
  "Generator_new = \<lparr>minValue = - 1, maxValue = 1\<rparr>"

definition setRange :: "real \<Rightarrow> real \<Rightarrow> 'a Generator_scheme \<Rightarrow> 'a Generator_scheme" where
  "setRange vmin vmax g = g\<lparr>minValue := vmin, maxValue := vmax\<rparr>"

text \<open>
  \<^verbatim>\<open>Generator::step\<close> returns 0.0, \<^verbatim>\<open>DC::step\<close> the middle of the range.
\<close>

definition Generator_step :: "'a Generator_scheme \<Rightarrow> real" where
  "Generator_step g = 0"

definition DC_step :: "'a Generator_scheme \<Rightarrow> real" where
  "DC_step g = (minValue g + maxValue g) / 2"

text \<open>
  \<^verbatim>\<open>rand()\<close> returns an integer between 0 and \<^verbatim>\<open>RAND_MAX\<close>; the value of glibc is taken.
  The calls of \<^verbatim>\<open>rand()\<close> are an argument of the model: the noise generators are functions
  of the numbers drawn.
\<close>

definition RAND_MAX :: int where
  "RAND_MAX = 2147483647"

definition WhiteNoise_step :: "int \<Rightarrow> 'a Generator_scheme \<Rightarrow> real" where
  "WhiteNoise_step r g =
     minValue g + (of_int r / of_int RAND_MAX) * (maxValue g - minValue g)"

text \<open>
  \<^verbatim>\<open>class PinkNoise\<close> (Voss-McCartney).  The constructor draws one number per octave,
  \<open>rand i\<close> being the \<open>i\<close>-th draw.  The member \<^verbatim>\<open>sum\<close> is the field \<open>sum_pink\<close>.
\<close>

definition PINK_NOISE_OCTAVE_COUNT :: nat where
  "PINK_NOISE_OCTAVE_COUNT = 30"

record PinkNoise = Generator +
  octaves :: "real list"
  sum_pink :: real
  maxSum :: real
  counter :: int
  maxCounter :: int

definition PinkNoise_new :: "(nat \<Rightarrow> int) \<Rightarrow> PinkNoise" where
  "PinkNoise_new rand =
     (let vals = map (\<lambda>i. of_int (rand i) / of_int RAND_MAX) [0..<PINK_NOISE_OCTAVE_COUNT]
      in \<lparr>minValue = - 1, maxValue = 1,
          octaves = vals,
          sum_pink = foldl (+) 0 vals,
          maxSum = of_nat (PINK_NOISE_OCTAVE_COUNT + 1),
          counter = 0,
          maxCounter = 2 ^ PINK_NOISE_OCTAVE_COUNT - 1\<rparr>)"

text \<open>
  The loop \<^verbatim>\<open>while ((n & 1) == 0) { n >>= 1; zeros++; }\<close>.  It has no exit at \<open>n = 0\<close>, so
  it is a partial function: \<open>None\<close> stands for not returning.
\<close>

partial_function (option) count_trailing_zeros :: "int \<Rightarrow> nat \<Rightarrow> nat option" where
  "count_trailing_zeros n zeros =
     (if n AND 1 = 0 then count_trailing_zeros (drop_bit 1 n) (zeros + 1) else Some zeros)"

declare count_trailing_zeros.simps [code]

text \<open>
  \<^verbatim>\<open>PinkNoise::step\<close>.  \<open>rand i\<close> is the \<open>i\<close>-th number the call draws: one for the octave it
  replaces, if it replaces one, and one for the white sample.  \<open>None\<close>: the trailing-zero
  loop does not return, or the octave index lies outside the array.
\<close>

definition PinkNoise_step :: "(nat \<Rightarrow> int) \<Rightarrow> PinkNoise \<Rightarrow> (real \<times> PinkNoise) option" where
  "PinkNoise_step rand g =
     (let c = (counter g + 1) AND maxCounter g;
          g = g\<lparr>counter := c\<rparr>;
          updated =
            (if c \<noteq> 0 then
               (case count_trailing_zeros c 0 of
                  None \<Rightarrow> None
                | Some zeros \<Rightarrow>
                    if zeros < length (octaves g) then
                      (let newRandomValue = of_int (rand 0) / of_int RAND_MAX
                       in Some (g\<lparr>sum_pink := sum_pink g - octaves g ! zeros + newRandomValue,
                                  octaves := (octaves g)[zeros := newRandomValue]\<rparr>, 1 :: nat))
                    else None)
             else Some (g, 0))
      in case updated of
           None \<Rightarrow> None
         | Some (g, drawn) \<Rightarrow>
             (let newRandomValue = of_int (rand drawn) / of_int RAND_MAX
              in Some (minValue g + ((sum_pink g + newRandomValue) / maxSum g) * (maxValue g - minValue g), g)))"

text \<open>
  \<^verbatim>\<open>class BrownNoise\<close>; its members \<^verbatim>\<open>sum\<close> and \<^verbatim>\<open>maxSum\<close> are the fields \<open>sum_brown\<close> and
  \<open>maxSum_brown\<close>.  The loop \<^verbatim>\<open>while (true)\<close> of its step draws until a number keeps the sum
  between 0 and \<^verbatim>\<open>maxSum\<close>: a partial function, \<open>i\<close> counting the numbers drawn so far.
\<close>

record BrownNoise = Generator +
  sum_brown :: real
  maxSum_brown :: real

definition BrownNoise_new :: BrownNoise where
  "BrownNoise_new = \<lparr>minValue = - 1, maxValue = 1, sum_brown = 16 / 2, maxSum_brown = 16\<rparr>"

partial_function (option) BrownNoise_walk :: "(nat \<Rightarrow> int) \<Rightarrow> real \<Rightarrow> nat \<Rightarrow> real \<Rightarrow> real option" where
  "BrownNoise_walk rand maxS i s =
     (let r = (of_int (rand i) / of_int RAND_MAX) * 2 - 1;
          s = s + r
      in if s < 0 \<or> s > maxS then BrownNoise_walk rand maxS (i + 1) (s - r) else Some s)"

declare BrownNoise_walk.simps [code]

definition BrownNoise_step :: "(nat \<Rightarrow> int) \<Rightarrow> BrownNoise \<Rightarrow> (real \<times> BrownNoise) option" where
  "BrownNoise_step rand g =
     (case BrownNoise_walk rand (maxSum_brown g) 0 (sum_brown g) of
        None \<Rightarrow> None
      | Some s \<Rightarrow>
          Some (minValue g + (s / maxSum_brown g) * (maxValue g - minValue g), g\<lparr>sum_brown := s\<rparr>))"

section \<open>Oscillators (oscillators.h)\<close>

text \<open>
  \<^verbatim>\<open>class Oscillator\<close>.  \<^verbatim>\<open>syncSlave\<close> points to another oscillator; it is modelled as that
  oscillator's address, and a step returns, besides the sample and the new state, the write
  it makes to the slave: \<open>Some (slave, ph)\<close> for \<^verbatim>\<open>syncSlave->phase = ph\<close>.  \<^verbatim>\<open>STEP_TIME\<close> is a
  macro fixed when a patch is compiled (the sample period); it is a parameter here.
\<close>

record Oscillator = Generator +
  frequency :: real
  phase :: real
  syncSlave :: "nat option"

definition Oscillator_new :: "real \<Rightarrow> Oscillator" where
  "Oscillator_new f = \<lparr>minValue = - 1, maxValue = 1, frequency = f, phase = 0, syncSlave = None\<rparr>"

definition Oscillator_step ::
  "real \<Rightarrow> 'a Oscillator_scheme \<Rightarrow> real \<times> 'a Oscillator_scheme \<times> (nat \<times> real) option" where
  "Oscillator_step STEP_TIME osc =
     (let ph = phase osc + STEP_TIME * frequency osc
      in if ph \<ge> 1 then
           (let ph = fmod ph 1
            in (0, osc\<lparr>phase := ph\<rparr>, map_option (\<lambda>slave. (slave, ph)) (syncSlave osc)))
         else (0, osc\<lparr>phase := ph\<rparr>, None))"

text \<open>
  \<^verbatim>\<open>step(float f)\<close>: assign the frequency, then step.
\<close>

definition Oscillator_step_f ::
  "real \<Rightarrow> real \<Rightarrow> 'a Oscillator_scheme \<Rightarrow> real \<times> 'a Oscillator_scheme \<times> (nat \<times> real) option" where
  "Oscillator_step_f STEP_TIME f osc = Oscillator_step STEP_TIME (osc\<lparr>frequency := f\<rparr>)"

text \<open>
  The variants compute their sample from the phase before they advance it with
  \<^verbatim>\<open>Oscillator::step\<close>.
\<close>

definition TAU :: real where
  "TAU = 6.28318530717958"

definition Sine_step ::
  "real \<Rightarrow> 'a Oscillator_scheme \<Rightarrow> real \<times> 'a Oscillator_scheme \<times> (nat \<times> real) option" where
  "Sine_step STEP_TIME osc =
     (let v = sin (phase osc * TAU);
          v = (if minValue osc \<noteq> - 1 \<or> maxValue osc \<noteq> 1
               then minValue osc + ((v + 1) / 2) * (maxValue osc - minValue osc) else v);
          (_, osc', sync) = Oscillator_step STEP_TIME osc
      in (v, osc', sync))"

record Pulse = Oscillator +
  width :: real

definition Pulse_new :: "real \<Rightarrow> real \<Rightarrow> Pulse" where
  "Pulse_new f w = Oscillator.extend (Oscillator_new f) (Pulse.fields w)"

definition Pulse_step ::
  "real \<Rightarrow> 'a Pulse_scheme \<Rightarrow> real \<times> 'a Pulse_scheme \<times> (nat \<times> real) option" where
  "Pulse_step STEP_TIME osc =
     (let v = (if phase osc < width osc then maxValue osc else minValue osc);
          (_, osc', sync) = Oscillator_step STEP_TIME osc
      in (v, osc', sync))"

definition Saw_step ::
  "real \<Rightarrow> 'a Oscillator_scheme \<Rightarrow> real \<times> 'a Oscillator_scheme \<times> (nat \<times> real) option" where
  "Saw_step STEP_TIME osc =
     (let v = minValue osc + phase osc * (maxValue osc - minValue osc);
          (_, osc', sync) = Oscillator_step STEP_TIME osc
      in (v, osc', sync))"

definition Triangle_step ::
  "real \<Rightarrow> 'a Oscillator_scheme \<Rightarrow> real \<times> 'a Oscillator_scheme \<times> (nat \<times> real) option" where
  "Triangle_step STEP_TIME osc =
     (let p = (if phase osc < 0.25 then 0.5 + phase osc * 2.0
               else if phase osc < 0.75 then 1.0 - (phase osc - 0.25) * 2.0
               else (phase osc - 0.75) * 2.0);
          (_, osc', sync) = Oscillator_step STEP_TIME osc
      in (minValue osc + p * (maxValue osc - minValue osc), osc', sync))"



text \<open>
  \<^verbatim>\<open>class Interpolated\<close>.  The array \<^verbatim>\<open>p[16]\<close> is a list, \<^verbatim>\<open>shape\<close> fills all sixteen places
  (absent arguments default to the point \<open>(-1, 0)\<close>) and counts the points in use.  The
  constructor leaves \<^verbatim>\<open>p\<close> and \<^verbatim>\<open>pcount\<close> uninitialised: they are arguments of
  \<open>Interpolated_new\<close>.
\<close>

datatype IPoint = IPoint (phase_pt: real) (value_pt: real)

record Interpolated = Oscillator +
  p :: "IPoint list"
  pcount :: nat
  value_interp :: real

fun shape_count :: "IPoint list \<Rightarrow> nat \<Rightarrow> nat" where
  "shape_count [] i = 16"
| "shape_count (q # qs) i =
     (if phase_pt q < 0 \<or> phase_pt q > 1 then i else shape_count qs (i + 1))"

definition shape :: "IPoint list \<Rightarrow> 'a Interpolated_scheme \<Rightarrow> 'a Interpolated_scheme" where
  "shape pts osc =
     (let ps = take 16 (pts @ replicate 16 (IPoint (- 1) 0))
      in osc\<lparr>p := ps, pcount := shape_count ps 0\<rparr>)"

text \<open>
  The loop of \<^verbatim>\<open>Interpolated::step\<close> over the points in use, with its \<^verbatim>\<open>break\<close>; then the
  step itself.
\<close>

fun Interpolated_scan :: "real \<Rightarrow> real \<Rightarrow> IPoint list \<Rightarrow> real \<Rightarrow> IPoint \<Rightarrow> real \<times> IPoint" where
  "Interpolated_scan ph phaseStep [] v target = (v, target)"
| "Interpolated_scan ph phaseStep (next # rest) v target =
     (let v = (if ph \<ge> phase_pt next \<and> ph - phaseStep < phase_pt next then value_pt next else v)
      in if ph < phase_pt next then (v, next)
         else Interpolated_scan ph phaseStep rest v target)"

definition Interpolated_step ::
  "real \<Rightarrow> 'a Interpolated_scheme \<Rightarrow> real \<times> 'a Interpolated_scheme \<times> (nat \<times> real) option" where
  "Interpolated_step STEP_TIME osc =
     (let phaseStep = STEP_TIME * frequency osc;
          first = p osc ! 0;
          (v, target) = Interpolated_scan (phase osc) phaseStep (take (pcount osc) (p osc))
                          (value_interp osc) first;
          deltaPhase = phase_pt target - phase osc;
          deltaPhase = (if deltaPhase < 0 then deltaPhase + 1 else deltaPhase);
          v = (if phaseStep > deltaPhase then value_pt target
               else if deltaPhase \<noteq> 0 then v + phaseStep * ((value_pt target - v) / deltaPhase)
               else v);
          osc = osc\<lparr>value_interp := v\<rparr>;
          (_, osc', sync) = Oscillator_step STEP_TIME osc
      in (minValue osc + ((v + 1) / 2) * (maxValue osc - minValue osc), osc', sync))"

definition Interpolated_new :: "real \<Rightarrow> IPoint list \<Rightarrow> nat \<Rightarrow> Interpolated" where
  "Interpolated_new f p0 pcount0 =
     Oscillator.extend (Oscillator_new f) (Interpolated.fields p0 pcount0 0)"



text \<open>
  \<^verbatim>\<open>class Additive\<close>.  The members are named without the leading underscore.  The
  constructor initialises the partials and sets the table pointer to NULL; the other
  wave-table members stay uninitialised and are the argument \<open>indeterminate\<close>.  The partial
  at index 0 is never read.
\<close>

record AdditivePartial =
  multiple :: real
  amplitude :: real
  phase_partial :: real

record Additive = Oscillator +
  partialCount :: int
  waveTable :: "real list option"
  waveTableFrequency :: real
  waveTableMinValue :: real
  waveTableMaxValue :: real
  waveTablePeriod :: real
  waveTableSamples :: int
  partials :: "AdditivePartial list"

definition Additive_new :: "int \<Rightarrow> real \<Rightarrow> real \<times> real \<times> real \<times> real \<times> int \<Rightarrow> Additive" where
  "Additive_new partialCount0 f indeterminate =
     (let n = (if partialCount0 < 1 then 1 else partialCount0);
          (wf, wmin, wmax, wp, ws) = indeterminate
      in Oscillator.extend (Oscillator_new f)
           (Additive.fields n None wf wmin wmax wp ws
              (\<lparr>multiple = 0, amplitude = 0, phase_partial = 0\<rparr> #
               map (\<lambda>i. \<lparr>multiple = of_int i, amplitude = 1 / of_int i, phase_partial = 0\<rparr>) [1..n])))"

text \<open>
  \<^verbatim>\<open>_updateWaveTable\<close>.  \<open>None\<close>: \<^verbatim>\<open>new float[samples]\<close> with a negative length, or filling a
  table that was never allocated.
\<close>

fun fill_wave_table :: "nat \<Rightarrow> real \<Rightarrow> real \<Rightarrow> real \<Rightarrow> real \<Rightarrow> real list" where
  "fill_wave_table 0 ph phaseStep vmin vmax = []"
| "fill_wave_table (Suc n) ph phaseStep vmin vmax =
     (vmin + ((sin ph + 1) / 2) * (vmax - vmin)) # fill_wave_table n (ph + phaseStep) phaseStep vmin vmax"

definition updateWaveTable :: "real \<Rightarrow> Additive \<Rightarrow> Additive option" where
  "updateWaveTable STEP_TIME a =
     (let frequencyChanged = (frequency a \<noteq> waveTableFrequency a);
          rangeChanged = (minValue a \<noteq> waveTableMinValue a \<or> maxValue a \<noteq> waveTableMaxValue a);
          resized =
            (if frequencyChanged then
               (let a = a\<lparr>waveTableFrequency := frequency a,
                          waveTablePeriod := 1 / (frequency a * STEP_TIME)\<rparr>;
                    samples = \<lceil>waveTablePeriod a\<rceil>
                in if samples \<noteq> waveTableSamples a then
                     (if samples < 0 then None
                      else Some (a\<lparr>waveTableSamples := samples,
                                   waveTable := Some (replicate (nat samples) 0)\<rparr>))
                   else Some a)
             else Some a)
      in case resized of
           None \<Rightarrow> None
         | Some a \<Rightarrow>
             if frequencyChanged \<or> rangeChanged then
               (if waveTable a = None \<and> 0 < waveTableSamples a then None
                else Some (a\<lparr>waveTable :=
                               map_option (\<lambda>_. fill_wave_table (nat (waveTableSamples a)) 0
                                                  (TAU / waveTablePeriod a) (minValue a) (maxValue a))
                                 (waveTable a),
                             waveTableMinValue := minValue a,
                             waveTableMaxValue := maxValue a\<rparr>))
             else Some a)"

text \<open>
  \<^verbatim>\<open>Additive::step\<close>: reads of the wave table are checked, \<open>None\<close> being a read outside it,
  the remainder by a zero table length, or an array of partials shorter than
  \<^verbatim>\<open>_partialCount + 1\<close>.
\<close>

definition table_at :: "real list option \<Rightarrow> int \<Rightarrow> real option" where
  "table_at t i =
     (case t of None \<Rightarrow> None
      | Some xs \<Rightarrow> if 0 \<le> i \<and> i < int (length xs) then Some (xs ! nat i) else None)"

fun Additive_partials ::
  "Additive \<Rightarrow> real \<Rightarrow> AdditivePartial list \<Rightarrow> real \<Rightarrow> (real \<times> AdditivePartial list) option" where
  "Additive_partials a phaseStep [] v = Some (v, [])"
| "Additive_partials a phaseStep (partial # rest) v =
     (let sample = waveTablePeriod a * phase_partial partial
      in if waveTableSamples a = 0 then None
         else
          (let sampleIndex = c_rem \<lfloor>sample\<rfloor> (waveTableSamples a);
               mix = sample - of_int sampleIndex
           in case (table_at (waveTable a) sampleIndex,
                    table_at (waveTable a) (c_rem (sampleIndex + 1) (waveTableSamples a))) of
                (Some cur, Some nxt) \<Rightarrow>
                  (let v = v + amplitude partial * (cur * (1 - mix) + nxt * mix);
                       partial = partial\<lparr>phase_partial :=
                                   fmod (phase_partial partial + phaseStep * multiple partial) 1\<rparr>
                   in case Additive_partials a phaseStep rest v of
                        None \<Rightarrow> None
                      | Some (v, rest) \<Rightarrow> Some (v, partial # rest))
              | _ \<Rightarrow> None))"

definition Additive_step ::
  "real \<Rightarrow> Additive \<Rightarrow> (real \<times> Additive \<times> (nat \<times> real) option) option" where
  "Additive_step STEP_TIME a =
     (if frequency a = 0 \<or> partialCount a < 1 then Some (0, a, None)
      else
        case updateWaveTable STEP_TIME a of
          None \<Rightarrow> None
        | Some a \<Rightarrow>
            (let phaseStep = STEP_TIME * frequency a;
                 n = nat (partialCount a)
             in if length (partials a) < n + 1 then None
                else
                  case Additive_partials a phaseStep (take n (drop 1 (partials a))) 0 of
                    None \<Rightarrow> None
                  | Some (v, ps) \<Rightarrow>
                      (let a = a\<lparr>partials := take 1 (partials a) @ ps @ drop (n + 1) (partials a)\<rparr>;
                           (_, a, sync) = Oscillator_step STEP_TIME a
                       in Some (v, a, sync))))"

section \<open>Virtual dispatch over the generator classes\<close>

text \<open>
  \<^verbatim>\<open>step\<close>, \<^verbatim>\<open>setRange\<close> and the members \<^verbatim>\<open>minValue\<close>, \<^verbatim>\<open>maxValue\<close>, \<^verbatim>\<open>frequency\<close>, \<^verbatim>\<open>phase\<close> are
  reached through a \<^verbatim>\<open>Generator*\<close> or \<^verbatim>\<open>Oscillator*\<close> whatever the class of the object.  A
  generator of any of the classes of generators.h and oscillators.h is a value of the type
  \<open>generator\<close>, and the virtual call is the function that dispatches on the class.
\<close>

datatype generator =
    G_Generator Generator
  | G_DC Generator
  | G_WhiteNoise Generator
  | G_PinkNoise PinkNoise
  | G_BrownNoise BrownNoise
  | G_Oscillator Oscillator
  | G_Sine Oscillator
  | G_Pulse Pulse
  | G_Saw Oscillator
  | G_Triangle Oscillator
  | G_Interpolated Interpolated
  | G_Additive Additive



fun generator_phase :: "generator \<Rightarrow> real option" where
  "generator_phase (G_Oscillator g) = Some (phase g)"
| "generator_phase (G_Sine g) = Some (phase g)"
| "generator_phase (G_Pulse g) = Some (phase g)"
| "generator_phase (G_Saw g) = Some (phase g)"
| "generator_phase (G_Triangle g) = Some (phase g)"
| "generator_phase (G_Interpolated g) = Some (phase g)"
| "generator_phase (G_Additive g) = Some (phase g)"
| "generator_phase _ = None"

fun generator_set_frequency :: "real \<Rightarrow> generator \<Rightarrow> generator" where
  "generator_set_frequency f (G_Oscillator g) = G_Oscillator (g\<lparr>frequency := f\<rparr>)"
| "generator_set_frequency f (G_Sine g) = G_Sine (g\<lparr>frequency := f\<rparr>)"
| "generator_set_frequency f (G_Pulse g) = G_Pulse (g\<lparr>frequency := f\<rparr>)"
| "generator_set_frequency f (G_Saw g) = G_Saw (g\<lparr>frequency := f\<rparr>)"
| "generator_set_frequency f (G_Triangle g) = G_Triangle (g\<lparr>frequency := f\<rparr>)"
| "generator_set_frequency f (G_Interpolated g) = G_Interpolated (g\<lparr>frequency := f\<rparr>)"
| "generator_set_frequency f (G_Additive g) = G_Additive (g\<lparr>frequency := f\<rparr>)"
| "generator_set_frequency f g = g"

text \<open>
  A step returns the sample, the new state and the write to a sync slave, or \<open>None\<close> where
  the class's step fails or does not return.  \<open>rand i\<close> is the \<open>i\<close>-th number that \<^verbatim>\<open>rand()\<close>
  returns during the step.
\<close>

type_synonym step_result = "(real \<times> generator \<times> (nat \<times> real) option) option"

definition wrap_step :: "('a \<Rightarrow> generator) \<Rightarrow> real \<times> 'a \<times> (nat \<times> real) option \<Rightarrow> step_result" where
  "wrap_step C r = (case r of (v, g, sync) \<Rightarrow> Some (v, C g, sync))"

fun generator_step :: "real \<Rightarrow> (nat \<Rightarrow> int) \<Rightarrow> generator \<Rightarrow> step_result" where
  "generator_step STEP_TIME rand (G_Generator g) = Some (Generator_step g, G_Generator g, None)"
| "generator_step STEP_TIME rand (G_DC g) = Some (DC_step g, G_DC g, None)"
| "generator_step STEP_TIME rand (G_WhiteNoise g) = Some (WhiteNoise_step (rand 0) g, G_WhiteNoise g, None)"
| "generator_step STEP_TIME rand (G_PinkNoise g) =
     map_option (\<lambda>(v, g). (v, G_PinkNoise g, None)) (PinkNoise_step rand g)"
| "generator_step STEP_TIME rand (G_BrownNoise g) =
     map_option (\<lambda>(v, g). (v, G_BrownNoise g, None)) (BrownNoise_step rand g)"
| "generator_step STEP_TIME rand (G_Oscillator g) = wrap_step G_Oscillator (Oscillator_step STEP_TIME g)"
| "generator_step STEP_TIME rand (G_Sine g) = wrap_step G_Sine (Sine_step STEP_TIME g)"
| "generator_step STEP_TIME rand (G_Pulse g) = wrap_step G_Pulse (Pulse_step STEP_TIME g)"
| "generator_step STEP_TIME rand (G_Saw g) = wrap_step G_Saw (Saw_step STEP_TIME g)"
| "generator_step STEP_TIME rand (G_Triangle g) = wrap_step G_Triangle (Triangle_step STEP_TIME g)"
| "generator_step STEP_TIME rand (G_Interpolated g) = wrap_step G_Interpolated (Interpolated_step STEP_TIME g)"
| "generator_step STEP_TIME rand (G_Additive g) =
     (case Additive_step STEP_TIME g of None \<Rightarrow> None | Some r \<Rightarrow> wrap_step G_Additive r)"

text \<open>
  A sequence of calls \<^verbatim>\<open>step(f)\<close>: each assigns the frequency \<open>f\<close> (to an oscillator) and
  steps, with the random numbers \<open>rand\<close> at its disposal.
\<close>

fun generator_run ::
  "real \<Rightarrow> (real \<times> (nat \<Rightarrow> int)) list \<Rightarrow> generator \<Rightarrow> (real list \<times> generator) option" where
  "generator_run STEP_TIME [] g = Some ([], g)"
| "generator_run STEP_TIME ((f, rand) # rest) g =
     (case generator_step STEP_TIME rand (generator_set_frequency f g) of
        None \<Rightarrow> None
      | Some (v, g, sync) \<Rightarrow>
          (case generator_run STEP_TIME rest g of
             None \<Rightarrow> None
           | Some (vs, g) \<Rightarrow> Some (v # vs, g)))"

fun generator_setRange :: "real \<Rightarrow> real \<Rightarrow> generator \<Rightarrow> generator" where
  "generator_setRange vmin vmax (G_Generator g) = G_Generator (setRange vmin vmax g)"
| "generator_setRange vmin vmax (G_DC g) = G_DC (setRange vmin vmax g)"
| "generator_setRange vmin vmax (G_WhiteNoise g) = G_WhiteNoise (setRange vmin vmax g)"
| "generator_setRange vmin vmax (G_PinkNoise g) = G_PinkNoise (setRange vmin vmax g)"
| "generator_setRange vmin vmax (G_BrownNoise g) = G_BrownNoise (setRange vmin vmax g)"
| "generator_setRange vmin vmax (G_Oscillator g) = G_Oscillator (setRange vmin vmax g)"
| "generator_setRange vmin vmax (G_Sine g) = G_Sine (setRange vmin vmax g)"
| "generator_setRange vmin vmax (G_Pulse g) = G_Pulse (setRange vmin vmax g)"
| "generator_setRange vmin vmax (G_Saw g) = G_Saw (setRange vmin vmax g)"
| "generator_setRange vmin vmax (G_Triangle g) = G_Triangle (setRange vmin vmax g)"
| "generator_setRange vmin vmax (G_Interpolated g) = G_Interpolated (setRange vmin vmax g)"
| "generator_setRange vmin vmax (G_Additive g) = G_Additive (setRange vmin vmax g)"

text \<open>
  The states in which the bound on the output is proved.  The range is not inverted.  A
  pink noise generator holds thirty octave values in \<open>[0, 1]\<close> with their running sum, as
  its constructor and its steps leave it; a brown noise generator has a positive
  \<^verbatim>\<open>maxSum\<close>.  Saw and triangle oscillators have their phase in \<open>[0, 1)\<close> and a
  frequency and step time that keep it there; an interpolated oscillator has its value
  and the values of its points in \<open>[-1, 1]\<close>, as the documentation of \<^verbatim>\<open>IPoint\<close> asks.  The
  generators whose step returns the constant 0.0, namely the base classes and an additive
  oscillator at frequency 0 or without partials, have 0 in their range; no state of an
  additive oscillator that reads its wave table is among them.
\<close>

fun generator_well_formed :: "real \<Rightarrow> generator \<Rightarrow> bool" where
  "generator_well_formed STEP_TIME (G_Generator g) = (minValue g \<le> 0 \<and> 0 \<le> maxValue g)"
| "generator_well_formed STEP_TIME (G_DC g) = (minValue g \<le> maxValue g)"
| "generator_well_formed STEP_TIME (G_WhiteNoise g) = (minValue g \<le> maxValue g)"
| "generator_well_formed STEP_TIME (G_PinkNoise g) =
     (minValue g \<le> maxValue g
      \<and> length (octaves g) = PINK_NOISE_OCTAVE_COUNT
      \<and> list_all (\<lambda>x. 0 \<le> x \<and> x \<le> 1) (octaves g)
      \<and> sum_pink g = sum_list (octaves g)
      \<and> maxSum g = of_nat (PINK_NOISE_OCTAVE_COUNT + 1)
      \<and> maxCounter g = 2 ^ PINK_NOISE_OCTAVE_COUNT - 1
      \<and> 0 \<le> counter g \<and> counter g \<le> maxCounter g)"
| "generator_well_formed STEP_TIME (G_BrownNoise g) =
     (minValue g \<le> maxValue g \<and> 0 < maxSum_brown g)"
| "generator_well_formed STEP_TIME (G_Oscillator g) = (minValue g \<le> 0 \<and> 0 \<le> maxValue g)"
| "generator_well_formed STEP_TIME (G_Sine g) = (minValue g \<le> maxValue g)"
| "generator_well_formed STEP_TIME (G_Pulse g) = (minValue g \<le> maxValue g)"
| "generator_well_formed STEP_TIME (G_Saw g) =
     (minValue g \<le> maxValue g \<and> 0 \<le> STEP_TIME \<and> 0 \<le> frequency g
      \<and> 0 \<le> phase g \<and> phase g < 1)"
| "generator_well_formed STEP_TIME (G_Triangle g) =
     (minValue g \<le> maxValue g \<and> 0 \<le> STEP_TIME \<and> 0 \<le> frequency g
      \<and> 0 \<le> phase g \<and> phase g < 1)"
| "generator_well_formed STEP_TIME (G_Interpolated g) =
     (minValue g \<le> maxValue g \<and> 0 \<le> STEP_TIME \<and> 0 \<le> frequency g
      \<and> p g \<noteq> []
      \<and> list_all (\<lambda>q. - 1 \<le> value_pt q \<and> value_pt q \<le> 1) (p g)
      \<and> - 1 \<le> value_interp g \<and> value_interp g \<le> 1)"
| "generator_well_formed STEP_TIME (G_Additive g) =
     ((frequency g = 0 \<or> partialCount g < 1) \<and> minValue g \<le> 0 \<and> 0 \<le> maxValue g)"


section \<open>Envelopes (lib/envelopes.h)\<close>

text \<open>
  The enumeration \<^verbatim>\<open>EnvelopePhase\<close> with its integer values, which \<^verbatim>\<open>step\<close> compares.
\<close>

datatype EnvelopePhase = InitialPhase | AttackPhase | DecayPhase | SustainPhase | ReleasePhase

fun EnvelopePhase_index :: "EnvelopePhase \<Rightarrow> nat" where
  "EnvelopePhase_index InitialPhase = 0"
| "EnvelopePhase_index AttackPhase = 1"
| "EnvelopePhase_index DecayPhase = 2"
| "EnvelopePhase_index SustainPhase = 3"
| "EnvelopePhase_index ReleasePhase = 4"

text \<open>
  Triggers.  The member \<^verbatim>\<open>last\<close> (the field \<open>last_trigger\<close>) is not initialised by any
  constructor; \<open>Trigger_new\<close> takes its initial content.  The \<^verbatim>\<open>action\<close> callback acts on the object that owns the trigger: a function on
  that object's state.
\<close>

record Trigger =
  threshold :: real
  last_trigger :: real

definition Trigger_new :: "real \<Rightarrow> Trigger" where
  "Trigger_new l = \<lparr>threshold = 0, last_trigger = l\<rparr>"

definition RiseTrigger_step :: "(real \<Rightarrow> 's \<Rightarrow> 's) \<Rightarrow> real \<Rightarrow> Trigger \<Rightarrow> 's \<Rightarrow> Trigger \<times> 's" where
  "RiseTrigger_step action v t s =
     (t\<lparr>last_trigger := v\<rparr>, if last_trigger t \<le> threshold t \<and> v > threshold t then action v s else s)"

definition FallTrigger_step :: "(real \<Rightarrow> 's \<Rightarrow> 's) \<Rightarrow> real \<Rightarrow> Trigger \<Rightarrow> 's \<Rightarrow> Trigger \<times> 's" where
  "FallTrigger_step action v t s =
     (t\<lparr>last_trigger := v\<rparr>, if last_trigger t > threshold t \<and> v \<le> threshold t then action v s else s)"

text \<open>
  \<^verbatim>\<open>class Envelope\<close> and \<^verbatim>\<open>class ADSR\<close>; the fields \<^verbatim>\<open>phase\<close> and \<^verbatim>\<open>value\<close> carry the suffix
  \<open>_env\<close>.  The actions of the two triggers set the phase.
\<close>

record Envelope = Generator +
  phase_env :: EnvelopePhase
  value_env :: real
  attack :: real
  decay :: real
  sustain :: real
  release :: real

record ADSR = Envelope +
  attackTrigger :: Trigger
  releaseTrigger :: Trigger

definition ADSR_new :: "real \<Rightarrow> real \<Rightarrow> real \<Rightarrow> real \<Rightarrow> real \<Rightarrow> real \<Rightarrow> ADSR" where
  "ADSR_new a d s r l1 l2 =
     \<lparr>minValue = 0, maxValue = 1,
      phase_env = InitialPhase, value_env = 0, attack = a, decay = d, sustain = s, release = r,
      attackTrigger = Trigger_new l1, releaseTrigger = Trigger_new l2\<rparr>"

definition ADSR_step :: "real \<Rightarrow> real \<Rightarrow> ADSR \<Rightarrow> real \<times> ADSR" where
  "ADSR_step STEP_TIME v e =
     (let (t, e) = RiseTrigger_step (\<lambda>v e. e\<lparr>phase_env := AttackPhase\<rparr>) v (attackTrigger e) e;
          e = e\<lparr>attackTrigger := t\<rparr>;
          (t, e) = FallTrigger_step (\<lambda>v e. e\<lparr>phase_env := ReleasePhase\<rparr>) v (releaseTrigger e) e;
          e = e\<lparr>releaseTrigger := t\<rparr>
      in if EnvelopePhase_index (phase_env e) < EnvelopePhase_index AttackPhase
            \<or> EnvelopePhase_index (phase_env e) > EnvelopePhase_index ReleasePhase
         then (minValue e, e)
         else
          (let e = (if phase_env e = AttackPhase then
                      (let e = (if attack e \<le> 0 then e\<lparr>value_env := maxValue e\<rparr> else e)
                       in if value_env e < maxValue e
                          then e\<lparr>value_env := value_env e + (STEP_TIME / attack e) * (maxValue e - minValue e)\<rparr>
                          else e\<lparr>phase_env := DecayPhase\<rparr>)
                    else e);
               e = (if phase_env e = DecayPhase then
                      (let e = (if decay e \<le> 0 then e\<lparr>value_env := sustain e\<rparr> else e)
                       in if value_env e > sustain e
                          then e\<lparr>value_env := value_env e - (STEP_TIME / decay e) * (maxValue e - sustain e)\<rparr>
                          else e\<lparr>phase_env := SustainPhase\<rparr>)
                    else e);
               e = (if phase_env e = SustainPhase then e\<lparr>value_env := sustain e\<rparr> else e);
               e = (if phase_env e = ReleasePhase then
                      (let e = (if release e \<le> 0 then e\<lparr>value_env := minValue e\<rparr> else e)
                       in if value_env e > minValue e
                          then e\<lparr>value_env := value_env e - (STEP_TIME / release e) * (sustain e - minValue e)\<rparr>
                          else e\<lparr>phase_env := InitialPhase\<rparr>)
                    else e);
               e = (if value_env e < minValue e then e\<lparr>value_env := minValue e\<rparr> else e);
               e = (if value_env e > maxValue e then e\<lparr>value_env := maxValue e\<rparr> else e)
           in (value_env e, e)))"

text \<open>
  Stepping an envelope through a sequence of velocities, collecting the samples.
\<close>

fun ADSR_run :: "real \<Rightarrow> real list \<Rightarrow> ADSR \<Rightarrow> real list" where
  "ADSR_run STEP_TIME [] e = []"
| "ADSR_run STEP_TIME (v # vs) e = (case ADSR_step STEP_TIME v e of (x, e') \<Rightarrow> x # ADSR_run STEP_TIME vs e')"

section \<open>Signal processors (lib/signals.h)\<close>

text \<open>
  \<^verbatim>\<open>class Processor\<close>: a generator with a \<^verbatim>\<open>source\<close> pointer to any other generator.  The
  source is a state of some type \<open>'g\<close> together with the function \<open>src_step\<close> that its
  virtual \<^verbatim>\<open>step\<close> is; a NULL source is \<open>None\<close>.  \<^verbatim>\<open>Processor::step\<close> passes the source's sample
  through, or returns 0.0 without a source.
\<close>

record 'g Processor = Generator +
  source :: "'g option"

definition Processor_new :: "'g option \<Rightarrow> 'g Processor" where
  "Processor_new s = \<lparr>minValue = - 1, maxValue = 1, source = s\<rparr>"

definition Processor_step ::
  "('g \<Rightarrow> real \<times> 'g) \<Rightarrow> ('g, 'a) Processor_scheme \<Rightarrow> real \<times> ('g, 'a) Processor_scheme" where
  "Processor_step src_step pr =
     (case source pr of
        None \<Rightarrow> (0, pr)
      | Some g \<Rightarrow> (let (v, g') = src_step g in (v, pr\<lparr>source := Some g'\<rparr>)))"

text \<open>
  \<^verbatim>\<open>Rectifier::step\<close>, in float arithmetic.  \<open>Rectifier_fold\<close> is the body after the sample \<open>s\<close>
  has been pulled from the source: \<^verbatim>\<open>range\<close>, \<^verbatim>\<open>delta\<close>, the quotient \<^verbatim>\<open>delta / range\<close> and the
  final sum are each rounded to \<^verbatim>\<open>float\<close>, \<^verbatim>\<open>fmod\<close> and \<^verbatim>\<open>floor\<close> are exact, and \<^verbatim>\<open>flips\<close> is the
  floor cast to \<^verbatim>\<open>int\<close>.  The bounds and the sample are floats themselves.  \<open>None\<close>: an
  intermediate result is an infinity, or the cast is undefined.
\<close>

definition Rectifier_fold :: "real \<Rightarrow> real \<Rightarrow> real \<Rightarrow> real option" where
  "Rectifier_fold vmin vmax s =
     do {
       range \<leftarrow> to_float (vmax - vmin);
       if range > 0 then
         (if s < vmin then
            do {
              delta \<leftarrow> to_float (vmin - s);
              q \<leftarrow> to_float (delta / range);
              flips \<leftarrow> int_cast (of_int \<lfloor>q\<rfloor>);
              if c_rem flips 2 = 0 then to_float (vmin + fmod delta range)
              else to_float (vmax - fmod delta range)
            }
          else if s > vmax then
            do {
              delta \<leftarrow> to_float (s - vmax);
              q \<leftarrow> to_float (delta / range);
              flips \<leftarrow> int_cast (of_int \<lfloor>q\<rfloor>);
              if c_rem flips 2 = 0 then to_float (vmax - fmod delta range)
              else to_float (vmin + fmod delta range)
            }
          else Some s)
       else Some s
     }"


section \<open>The delay line (buffers.h)\<close>

text \<open>
  \<^verbatim>\<open>SampleFlags\<close> is an \<^verbatim>\<open>unsigned int\<close> combining values of the three enumerations with
  bitwise or; a flag \<open>X\<close> is tested as \<^verbatim>\<open>(flags & X) == X\<close>.
\<close>

type_synonym SampleFlags = "32 word"

definition SampleUnitPhase :: SampleFlags where "SampleUnitPhase = 1"
definition SampleUnitSeconds :: SampleFlags where "SampleUnitSeconds = 2"
definition SampleUnitSamples :: SampleFlags where "SampleUnitSamples = 4"
definition SampleModeInterpolated :: SampleFlags where "SampleModeInterpolated = 256"
definition SampleModeAligned :: SampleFlags where "SampleModeAligned = 512"
definition SampleOperationSet :: SampleFlags where "SampleOperationSet = 65536"
definition SampleOperationAdd :: SampleFlags where "SampleOperationAdd = 131072"
definition SampleOperationMultiply :: SampleFlags where "SampleOperationMultiply = 262144"

text \<open>
  \<^verbatim>\<open>class Delay\<close>.  The buffer is a list when allocated and \<open>None\<close> when NULL; reads and
  writes of it are checked, \<open>None\<close> being an access outside the buffer.
  \<^verbatim>\<open>feedbackOperation\<close> is a \<^verbatim>\<open>std::function\<close>: the default installed by \<^verbatim>\<open>_init\<close> (multiply by
  the member \<^verbatim>\<open>feedback\<close>), a function supplied by the patch, or NULL.
\<close>

datatype FeedbackOperation = DefaultFeedback | CustomFeedback "real \<Rightarrow> real" | NullFeedback

record 'g Delay = "'g Processor" +
  buffer :: "real list option"
  bufferLen :: int
  seconds :: real
  samples :: real
  remainder :: real
  nextFeedback :: real
  insertIndex :: int
  feedback :: real
  feedbackOperation :: FeedbackOperation

definition Delay_init :: "'g Processor \<Rightarrow> 'g Delay" where
  "Delay_init pr =
     Processor.extend pr
       (Delay.fields None 0 0 0 0 0 0 0 DefaultFeedback)"

definition buffer_get :: "real list option \<Rightarrow> int \<Rightarrow> real option" where
  "buffer_get b i =
     (case b of None \<Rightarrow> None
      | Some xs \<Rightarrow> if 0 \<le> i \<and> i < int (length xs) then Some (xs ! nat i) else None)"

definition buffer_set :: "real list option \<Rightarrow> int \<Rightarrow> real \<Rightarrow> real list option option" where
  "buffer_set b i v =
     (case b of None \<Rightarrow> None
      | Some xs \<Rightarrow> if 0 \<le> i \<and> i < int (length xs) then Some (Some (xs[nat i := v])) else None)"

text \<open>
  \<^verbatim>\<open>sampleAtLocation\<close>.  In the units other than samples the source computes a clamped
  \<^verbatim>\<open>phase\<close> and then uses \<^verbatim>\<open>location\<close>, not \<^verbatim>\<open>phase\<close>, in the product; so does the model.
\<close>

definition sampleAtLocation :: "real \<Rightarrow> SampleFlags \<Rightarrow> ('g, 'a) Delay_scheme \<Rightarrow> real" where
  "sampleAtLocation location flags d =
     (let sample =
        (if flags AND SampleUnitSamples = SampleUnitSamples then
           fmod (of_int (insertIndex d) + remainder d + location) (samples d)
         else
           (let ph = (0 :: real);
                ph = (if flags AND SampleUnitSeconds = SampleUnitSeconds then location / seconds d
                      else if flags AND SampleUnitPhase = SampleUnitPhase then location
                      else ph);
                ph = (if ph < 0 then 0 else ph);
                ph = (if ph > 1 then 1 else ph)
            in fmod (of_int (insertIndex d) + remainder d + location * (samples d - 1)) (samples d)))
      in if flags AND SampleModeAligned = SampleModeAligned then c_round sample else sample)"

text \<open>
  \<^verbatim>\<open>setDelay\<close>.  \<open>crossfade\<close> is its \<^verbatim>\<open>while\<close> loop: \<open>k\<close> counts the iterations done, the
  head pointers stand at index \<open>k\<close> and the tail pointers \<open>k\<close> places before the ends.
  Allocation is taken to succeed.  The loop runs over the shorter of the two buffers, so
  its accesses lie inside both as long as the old buffer holds \<^verbatim>\<open>bufferLen\<close> samples and
  \<^verbatim>\<open>insertIndex\<close> is an index of it, as the class keeps them.
\<close>

fun crossfade ::
  "nat \<Rightarrow> nat \<Rightarrow> real list \<Rightarrow> real list \<Rightarrow> int \<Rightarrow> real \<Rightarrow> real \<Rightarrow> int \<Rightarrow> real list" where
  "crossfade 0 k src dest i taper taperStep nonOverlapLen = dest"
| "crossfade (Suc n) k src dest i taper taperStep nonOverlapLen =
     (let dest = dest[k := dest ! k + src ! k * taper];
          dt = length dest - 1 - k;
          st = length src - 1 - k;
          dest = dest[dt := dest ! dt + src ! st * taper];
          i = i + 1;
          taper = (if i \<ge> nonOverlapLen then taper - taperStep else taper)
      in crossfade n (k + 1) src dest i taper taperStep nonOverlapLen)"

definition setDelay :: "real \<Rightarrow> real \<Rightarrow> SampleFlags \<Rightarrow> ('g, 'a) Delay_scheme \<Rightarrow> ('g, 'a) Delay_scheme" where
  "setDelay STEP_TIME length0 flags d =
     (let d = (if flags AND SampleUnitSamples = SampleUnitSamples
               then d\<lparr>samples := length0, seconds := length0 * STEP_TIME\<rparr> else d);
          d = (if flags AND SampleUnitSeconds = SampleUnitSeconds
               then d\<lparr>seconds := length0, samples := length0 / STEP_TIME\<rparr> else d);
          d = (if flags AND SampleModeAligned = SampleModeAligned
               then d\<lparr>samples := c_round (samples d)\<rparr> else d)
      in if \<not> (samples d > 0) then
           d\<lparr>buffer := None, bufferLen := 0, insertIndex := 0,
              samples := 0, remainder := 0, seconds := 0\<rparr>
         else
           (let newBufferLen = \<lceil>samples d\<rceil>;
                d = d\<lparr>remainder := fmod (1 - (of_int newBufferLen - samples d)) 1\<rparr>
            in if newBufferLen = bufferLen d then d
               else
                 (let newBuffer = replicate (nat newBufferLen) (0 :: real)
                  in case buffer d of
                       None \<Rightarrow> d\<lparr>buffer := Some newBuffer, bufferLen := newBufferLen, insertIndex := 0\<rparr>
                     | Some old \<Rightarrow>
                         (let aligned = drop (nat (insertIndex d)) old @ take (nat (insertIndex d)) old;
                              overlap = newBufferLen;
                              nonOverlapLen = (0 :: int);
                              taperStep = (if overlap > 1 then 1 / of_int (overlap - 1) else (0 :: real));
                              (overlap, nonOverlapLen, taperStep) =
                                (if newBufferLen > bufferLen d then
                                   (let overlap = newBufferLen - 2 * (newBufferLen - bufferLen d);
                                        overlap = (if overlap < 0 then 0 else overlap)
                                    in (overlap, bufferLen d - overlap, 1 / of_int (overlap + 1)))
                                 else (overlap, nonOverlapLen, taperStep));
                              newBuffer = crossfade (min (nat (bufferLen d)) (nat newBufferLen)) 0
                                            aligned newBuffer 0 1 taperStep nonOverlapLen
                          in d\<lparr>buffer := Some newBuffer, bufferLen := newBufferLen, insertIndex := 0\<rparr>))))"

definition getDelay :: "SampleFlags \<Rightarrow> ('g, 'a) Delay_scheme \<Rightarrow> real" where
  "getDelay flags d = (if flags AND SampleUnitSamples = SampleUnitSamples then samples d else seconds d)"

text \<open>
  \<^verbatim>\<open>tapIn\<close> and \<^verbatim>\<open>tapOut\<close>.  The first test of \<^verbatim>\<open>tapIn\<close> returns without writing when there is
  no buffer or the value is 0.0.
\<close>

definition tapIn ::
  "real \<Rightarrow> real \<Rightarrow> SampleFlags \<Rightarrow> ('g, 'a) Delay_scheme \<Rightarrow> ('g, 'a) Delay_scheme option" where
  "tapIn location v flags d =
     (if bufferLen d = 0 \<or> v = 0 then Some d
      else
        (let sample = sampleAtLocation location flags d;
             prevIndex = \<lfloor>sample\<rfloor>;
             prevIndex = (if prevIndex < 0 then prevIndex + bufferLen d else prevIndex);
             nextIndex = c_rem \<lceil>sample\<rceil> (bufferLen d)
         in if nextIndex = prevIndex then
              (if flags AND SampleOperationAdd = SampleOperationAdd then
                 (case buffer_get (buffer d) prevIndex of None \<Rightarrow> None
                  | Some x \<Rightarrow> map_option (\<lambda>b. d\<lparr>buffer := b\<rparr>) (buffer_set (buffer d) prevIndex (x + v)))
               else if flags AND SampleOperationMultiply = SampleOperationMultiply then
                 (case buffer_get (buffer d) prevIndex of None \<Rightarrow> None
                  | Some x \<Rightarrow> map_option (\<lambda>b. d\<lparr>buffer := b\<rparr>) (buffer_set (buffer d) prevIndex (x * v)))
               else if flags AND SampleOperationSet = SampleOperationSet then
                 map_option (\<lambda>b. d\<lparr>buffer := b\<rparr>) (buffer_set (buffer d) prevIndex v)
               else Some d)
            else
              (let mix = sample - of_int \<lfloor>sample\<rfloor>
               in if flags AND SampleOperationAdd = SampleOperationAdd then
                    (case buffer_get (buffer d) prevIndex of None \<Rightarrow> None
                     | Some x \<Rightarrow>
                        (case buffer_set (buffer d) prevIndex (x + v * (1 - mix)) of None \<Rightarrow> None
                         | Some b \<Rightarrow>
                            (case buffer_get b nextIndex of None \<Rightarrow> None
                             | Some y \<Rightarrow> map_option (\<lambda>b. d\<lparr>buffer := b\<rparr>) (buffer_set b nextIndex (y + v * mix)))))
                  else if flags AND SampleOperationMultiply = SampleOperationMultiply then
                    (case buffer_get (buffer d) prevIndex of None \<Rightarrow> None
                     | Some x \<Rightarrow>
                        (case buffer_set (buffer d) prevIndex (x * (v * (1 - mix))) of None \<Rightarrow> None
                         | Some b \<Rightarrow>
                            (case buffer_get b nextIndex of None \<Rightarrow> None
                             | Some y \<Rightarrow> map_option (\<lambda>b. d\<lparr>buffer := b\<rparr>) (buffer_set b nextIndex (y * (v * mix))))))
                  else if flags AND SampleOperationSet = SampleOperationSet then
                    (case buffer_set (buffer d) prevIndex (v * (1 - mix)) of None \<Rightarrow> None
                     | Some b \<Rightarrow> map_option (\<lambda>b. d\<lparr>buffer := b\<rparr>) (buffer_set b nextIndex (v * mix)))
                  else Some d)))"

definition tapOut :: "real \<Rightarrow> SampleFlags \<Rightarrow> ('g, 'a) Delay_scheme \<Rightarrow> real option" where
  "tapOut location flags d =
     (if bufferLen d = 0 then Some 0
      else
        (let sample = sampleAtLocation location flags d;
             prevIndex = \<lfloor>sample\<rfloor>;
             prevIndex = (if prevIndex < 0 then prevIndex + bufferLen d else prevIndex);
             nextIndex = c_rem \<lceil>sample\<rceil> (bufferLen d)
         in if nextIndex = prevIndex then buffer_get (buffer d) prevIndex
            else
              (let mix = sample - of_int \<lfloor>sample\<rfloor>
               in case (buffer_get (buffer d) prevIndex, buffer_get (buffer d) nextIndex) of
                    (Some x, Some y) \<Rightarrow> Some (x * (1 - mix) + y * mix)
                  | _ \<Rightarrow> None)))"

text \<open>
  \<^verbatim>\<open>Delay::step\<close>, and the two constructors.
\<close>

definition Delay_step ::
  "('g \<Rightarrow> real \<times> 'g) \<Rightarrow> ('g, 'a) Delay_scheme \<Rightarrow> (real \<times> ('g, 'a) Delay_scheme) option" where
  "Delay_step src_step d =
     (let (inp, d) = Processor_step src_step d
      in if buffer d = None \<or> bufferLen d = 0 then Some (inp, d)
         else
           (let nextIndex = c_rem (insertIndex d + 1) (bufferLen d)
            in case (buffer_get (buffer d) (insertIndex d), buffer_get (buffer d) nextIndex) of
                 (Some cur, Some nxt) \<Rightarrow>
                   (let out = cur + (nxt - cur) * remainder d;
                        (inp, d) =
                          (case feedbackOperation d of
                             NullFeedback \<Rightarrow> (inp, d\<lparr>nextFeedback := 0\<rparr>)
                           | DefaultFeedback \<Rightarrow>
                               (inp + (nextFeedback d + cur * (1 - remainder d)) * feedback d,
                                d\<lparr>nextFeedback := nxt * remainder d\<rparr>)
                           | CustomFeedback f \<Rightarrow>
                               (inp + f (nextFeedback d + cur * (1 - remainder d)),
                                d\<lparr>nextFeedback := nxt * remainder d\<rparr>))
                    in case buffer_set (buffer d) (insertIndex d) inp of
                         None \<Rightarrow> None
                       | Some b \<Rightarrow> Some (out, d\<lparr>buffer := b, insertIndex := nextIndex\<rparr>))
               | _ \<Rightarrow> None))"

definition Delay_new0 :: "'g Delay" where
  "Delay_new0 = Delay_init (Processor_new None)"

definition Delay_new :: "real \<Rightarrow> 'g option \<Rightarrow> real \<Rightarrow> SampleFlags \<Rightarrow> 'g Delay" where
  "Delay_new STEP_TIME s length0 flags = setDelay STEP_TIME length0 flags (Delay_init (Processor_new s))"

text \<open>
  The delay line \<^verbatim>\<open>Delay(NULL, 2.0, SampleUnitSamples | SampleModeAligned)\<close>: two samples, no
  source.  It is the example the evaluations below start from.
\<close>

definition two_sample_delay :: "unit Delay" where
  "two_sample_delay = Delay_new (1 / 64) None 2 (SampleUnitSamples OR SampleModeAligned)"

section \<open>The plugin (csynth.h, patch.h, csynth.c)\<close>

definition CV_COUNT :: nat where "CV_COUNT = 120"
definition MAX_VOICE_COUNT :: nat where "MAX_VOICE_COUNT = 64"

text \<open>
  A voice; the members \<^verbatim>\<open>note\<close> and \<^verbatim>\<open>frequency\<close> are the fields \<open>note_voice\<close> and
  \<open>frequency_voice\<close>.  \<^verbatim>\<open>allocation_index\<close> is a C \<^verbatim>\<open>int\<close>, kept unbounded here.
\<close>

record Voice =
  note_voice :: "8 word"
  frequency_voice :: real
  velocity :: real
  allocation_index :: int

text \<open>
  A patch.  The loaded library keeps the state of its voices between calls of its step
  function: \<open>'p\<close> is the type of that state, \<^verbatim>\<open>lib\<close> holds it, and the step function maps
  the state, the voice index, frequency, velocity and control values to the sample and
  the new state.  The member \<^verbatim>\<open>output\<close> is the field \<open>output_text\<close>.  \<open>address\<close> is not a
  member: it is the value of the pointer to the structure, which \<^verbatim>\<open>work\<close> reads as data.
\<close>

type_synonym 'p StepFunc = "'p \<Rightarrow> nat \<Rightarrow> real \<Rightarrow> real \<Rightarrow> real list \<Rightarrow> real \<times> 'p"

record 'p Patch =
  address :: "64 word"
  code_path :: string
  tmp_path :: string
  lib_path :: string
  output_text :: string
  built :: bool
  loaded :: bool
  lib :: "'p option"
  step :: "'p StepFunc option"

text \<open>
  The URIs of uris.h and of the LV2 headers it includes, the identifiers the host's map
  gives them, and \<^verbatim>\<open>map_csynth_uris\<close>.
\<close>

definition CSYNTH_URI :: string where "CSYNTH_URI = ''http://github.com/jessecrossen/csynth''"
definition CSYNTH__codepath :: string where "CSYNTH__codepath = CSYNTH_URI @ ''#codepath''"
definition CSYNTH__autobuild :: string where "CSYNTH__autobuild = CSYNTH_URI @ ''#autobuild''"
definition CSYNTH__bendrange :: string where "CSYNTH__bendrange = CSYNTH_URI @ ''#bendrange''"
definition CSYNTH__polyphony :: string where "CSYNTH__polyphony = CSYNTH_URI @ ''#polyphony''"
definition CSYNTH__cv :: string where "CSYNTH__cv = CSYNTH_URI @ ''#cv''"
definition CSYNTH__disposeLib :: string where "CSYNTH__disposeLib = CSYNTH_URI @ ''#disposeLib''"

definition LV2_ATOM__Tuple :: string where "LV2_ATOM__Tuple = ''http://lv2plug.in/ns/ext/atom#Tuple''"
definition LV2_ATOM__Int :: string where "LV2_ATOM__Int = ''http://lv2plug.in/ns/ext/atom#Int''"
definition LV2_ATOM__Float :: string where "LV2_ATOM__Float = ''http://lv2plug.in/ns/ext/atom#Float''"
definition LV2_ATOM__Path :: string where "LV2_ATOM__Path = ''http://lv2plug.in/ns/ext/atom#Path''"
definition LV2_ATOM__String :: string where "LV2_ATOM__String = ''http://lv2plug.in/ns/ext/atom#String''"
definition LV2_ATOM__URID :: string where "LV2_ATOM__URID = ''http://lv2plug.in/ns/ext/atom#URID''"
definition LV2_ATOM__eventTransfer :: string where
  "LV2_ATOM__eventTransfer = ''http://lv2plug.in/ns/ext/atom#eventTransfer''"
definition LV2_MIDI__MidiEvent :: string where
  "LV2_MIDI__MidiEvent = ''http://lv2plug.in/ns/ext/midi#MidiEvent''"
definition LV2_PATCH__Get :: string where "LV2_PATCH__Get = ''http://lv2plug.in/ns/ext/patch#Get''"
definition LV2_PATCH__Set :: string where "LV2_PATCH__Set = ''http://lv2plug.in/ns/ext/patch#Set''"
definition LV2_PATCH__property :: string where
  "LV2_PATCH__property = ''http://lv2plug.in/ns/ext/patch#property''"
definition LV2_PATCH__value :: string where "LV2_PATCH__value = ''http://lv2plug.in/ns/ext/patch#value''"
definition LV2_STATE__mapPath :: string where
  "LV2_STATE__mapPath = ''http://lv2plug.in/ns/ext/state#mapPath''"

type_synonym LV2_URID = "32 word"

record CsynthURIs =
  atom_Tuple :: LV2_URID
  atom_Int :: LV2_URID
  atom_Float :: LV2_URID
  atom_Path :: LV2_URID
  atom_String :: LV2_URID
  atom_URID :: LV2_URID
  atom_eventTransfer :: LV2_URID
  csynth_codepath :: LV2_URID
  csynth_autobuild :: LV2_URID
  csynth_polyphony :: LV2_URID
  csynth_bendrange :: LV2_URID
  csynth_cv :: LV2_URID
  csynth_disposeLib :: LV2_URID
  midi_Event :: LV2_URID
  patch_Get :: LV2_URID
  patch_Set :: LV2_URID
  patch_property :: LV2_URID
  patch_value :: LV2_URID
  state_mapPath :: LV2_URID

definition map_csynth_uris :: "(string \<Rightarrow> LV2_URID) \<Rightarrow> CsynthURIs" where
  "map_csynth_uris map0 =
     \<lparr>atom_Tuple = map0 LV2_ATOM__Tuple,
      atom_Int = map0 LV2_ATOM__Int,
      atom_Float = map0 LV2_ATOM__Float,
      atom_Path = map0 LV2_ATOM__Path,
      atom_String = map0 LV2_ATOM__String,
      atom_URID = map0 LV2_ATOM__URID,
      atom_eventTransfer = map0 LV2_ATOM__eventTransfer,
      csynth_codepath = map0 CSYNTH__codepath,
      csynth_autobuild = map0 CSYNTH__autobuild,
      csynth_polyphony = map0 CSYNTH__polyphony,
      csynth_bendrange = map0 CSYNTH__bendrange,
      csynth_cv = map0 CSYNTH__cv,
      csynth_disposeLib = map0 CSYNTH__disposeLib,
      midi_Event = map0 LV2_MIDI__MidiEvent,
      patch_Get = map0 LV2_PATCH__Get,
      patch_Set = map0 LV2_PATCH__Set,
      patch_property = map0 LV2_PATCH__property,
      patch_value = map0 LV2_PATCH__value,
      state_mapPath = map0 LV2_STATE__mapPath\<rparr>"

text \<open>
  Atoms.  An object is a \<^verbatim>\<open>patch:Set\<close> of one of the properties with a value of the
  property's type, a \<^verbatim>\<open>patch:Set\<close> of anything else or without a value, a \<^verbatim>\<open>patch:Get\<close>, or
  another object.  An event carries its time in frames and a MIDI message of three bytes,
  an object, or something else.  The atoms that reach the plugin from outside are told
  apart by their identifiers; the host's map gives different URIs different identifiers,
  as LV2 requires, so an atom is a value of these types.
\<close>

datatype TupleElem = IntElem int | FloatElem real | OtherElem

datatype AtomObject =
    Set_codepath string
  | Set_cv "TupleElem list"
  | Set_autobuild int
  | Set_polyphony int
  | Set_bendrange real
  | Set_other
  | Get
  | OtherObject

datatype EventBody = MidiEvent "8 word" "8 word" "8 word" | ObjectEvent AtomObject | OtherEvent

record Event =
  time_frames :: int
  body :: EventBody

text \<open>
  The plugin instance.  \<^verbatim>\<open>out\<close> is the memory at the host's output pointer, indexed in
  samples, and \<open>out_size\<close> the number of floats of the buffer the host connected there: the
  plugin does not know it, the host promises at least \<^verbatim>\<open>sample_count\<close> of them at each
  \<^verbatim>\<open>run\<close>, and a write outside the buffer is undefined.  \<open>scheduled\<close> collects the messages
  passed to \<^verbatim>\<open>schedule_work\<close>.  \<open>step_calls\<close> is not a member of the C structure: it counts
  the invocations of a patch's step function, to state that none happens.  The forge and
  the port pointers other than \<^verbatim>\<open>out\<close> are left out.
\<close>

datatype 'p WorkMessage = DisposeLib "'p Patch" | WorkObject AtomObject

record 'p Csynth =
  out :: "nat \<Rightarrow> real"
  out_size :: nat
  uris :: CsynthURIs
  scheduled :: "'p WorkMessage list"
  time_step :: real
  patch :: "'p Patch option"
  autobuild :: int
  polyphony :: int
  bendrange :: real
  send_patch_change_to_gui :: bool
  send_autobuild_change_to_gui :: bool
  send_polyphony_change_to_gui :: bool
  send_bendrange_change_to_gui :: bool
  send_cv_change_to_gui :: bool
  set_cv_indices :: "int list"
  set_cv_count :: nat
  cv :: "real list"
  bend :: real
  bend_scaled :: real
  voices :: "Voice list"
  voice_allocation_index :: int
  step_calls :: nat

text \<open>
  \<^verbatim>\<open>instantiate\<close>, where the host offers the two required features; \<open>map0\<close> is the host's
  URID map.  The structure is zeroed, so no output buffer is connected.  \<^verbatim>\<open>connect_port\<close>
  for the output port: \<open>data\<close> is the content of the memory at the pointer the host
  passes, \<open>size\<close> the length of its buffer; the two other ports are not modelled.
\<close>

definition instantiate :: "real \<Rightarrow> (string \<Rightarrow> LV2_URID) \<Rightarrow> 'p Csynth" where
  "instantiate rate map0 =
     \<lparr>out = (\<lambda>i. 0), out_size = 0, uris = map_csynth_uris map0,
      scheduled = [], time_step = 1 / rate, patch = None,
      autobuild = 0, polyphony = 0, bendrange = 0,
      send_patch_change_to_gui = False, send_autobuild_change_to_gui = False,
      send_polyphony_change_to_gui = False, send_bendrange_change_to_gui = False,
      send_cv_change_to_gui = False,
      set_cv_indices = replicate CV_COUNT 0, set_cv_count = 0,
      cv = replicate CV_COUNT 0, bend = 0, bend_scaled = 0,
      voices = replicate MAX_VOICE_COUNT
                 \<lparr>note_voice = 0, frequency_voice = 0, velocity = 0, allocation_index = 0\<rparr>,
      voice_allocation_index = 0, step_calls = 0\<rparr>"

datatype PortIndex = CSYNTH_MIDI_IN | CSYNTH_NOTIFY | CSYNTH_OUT

definition connect_port :: "PortIndex \<Rightarrow> (nat \<Rightarrow> real) \<Rightarrow> nat \<Rightarrow> 'p Csynth \<Rightarrow> 'p Csynth" where
  "connect_port port data size0 self =
     (case port of
        CSYNTH_OUT \<Rightarrow> self\<lparr>out := data, out_size := size0\<rparr>
      | _ \<Rightarrow> self)"

text \<open>
  MIDI processing.
\<close>

definition note_number_to_frequency :: "real \<Rightarrow> real" where
  "note_number_to_frequency n = 440 * 2 powr ((n - 69) / 12)"

definition update_bend :: "real \<Rightarrow> real \<Rightarrow> 'p Csynth \<Rightarrow> 'p Csynth" where
  "update_bend bend0 bendrange0 self =
     (if bend0 \<noteq> bend self \<or> bendrange0 \<noteq> bendrange self then
        (let self = self\<lparr>bend := bend0, bendrange := bendrange0, bend_scaled := bend0 * bendrange0\<rparr>
         in self\<lparr>voices :=
              map (\<lambda>vc. if note_voice vc > 0
                         then vc\<lparr>frequency_voice :=
                                note_number_to_frequency (real (unat (note_voice vc)) + bend_scaled self)\<rparr>
                         else vc)
                  (voices self)\<rparr>)
      else self)"

definition get_voice_count :: "'p Csynth \<Rightarrow> nat" where
  "get_voice_count self =
     (let voices = polyphony self;
          voices = (if voices < 1 then 1 else voices);
          voices = (if voices > int MAX_VOICE_COUNT then int MAX_VOICE_COUNT else voices)
      in nat voices)"

text \<open>
  \<^verbatim>\<open>allocate_voice\<close>: \<open>allocate_scan\<close> is the body of its loop, on the pair of \<^verbatim>\<open>index\<close> and
  \<^verbatim>\<open>minimum_index\<close>.
\<close>

definition allocate_scan :: "Voice list \<Rightarrow> nat \<times> int \<Rightarrow> nat \<Rightarrow> nat \<times> int" where
  "allocate_scan vs acc i =
     (let (index, minimum_index) = acc
      in if velocity (vs ! i) > 0 then (index, minimum_index)
         else if minimum_index < 0 \<or> allocation_index (vs ! i) < minimum_index
              then (i, allocation_index (vs ! i))
              else (index, minimum_index))"

definition allocate_voice :: "'p Csynth \<Rightarrow> nat \<times> 'p Csynth" where
  "allocate_voice self =
     (let (index, minimum_index) =
            foldl (allocate_scan (voices self)) (0, - 1) [0..<get_voice_count self]
      in (index,
          self\<lparr>voices := (voices self)[index :=
                    (voices self ! index)\<lparr>allocation_index := voice_allocation_index self\<rparr>],
               voice_allocation_index := voice_allocation_index self + 1\<rparr>))"

text \<open>
  The message types of the LV2 MIDI extension, and \<^verbatim>\<open>lv2_midi_message_type\<close> as its header
  defines it on the status byte.
\<close>

definition LV2_MIDI_MSG_NOTE_OFF :: "8 word" where "LV2_MIDI_MSG_NOTE_OFF = 0x80"
definition LV2_MIDI_MSG_NOTE_ON :: "8 word" where "LV2_MIDI_MSG_NOTE_ON = 0x90"
definition LV2_MIDI_MSG_NOTE_PRESSURE :: "8 word" where "LV2_MIDI_MSG_NOTE_PRESSURE = 0xA0"
definition LV2_MIDI_MSG_CONTROLLER :: "8 word" where "LV2_MIDI_MSG_CONTROLLER = 0xB0"
definition LV2_MIDI_MSG_BENDER :: "8 word" where "LV2_MIDI_MSG_BENDER = 0xE0"

definition lv2_midi_message_type :: "8 word \<Rightarrow> 8 word" where
  "lv2_midi_message_type status =
     (if status \<ge> 0x80 \<and> status < 0xF0 then status AND 0xF0
      else if status \<notin> {0xF4, 0xF5, 0xF7, 0xF9, 0xFD} \<and> status AND 0xF0 = 0xF0 then status
      else 0)"

definition receive_midi_event :: "8 word \<Rightarrow> 8 word \<Rightarrow> 8 word \<Rightarrow> 'p Csynth \<Rightarrow> 'p Csynth" where
  "receive_midi_event msg0 msg1 msg2 self =
     (let ty = lv2_midi_message_type msg0
      in if ty = LV2_MIDI_MSG_NOTE_ON then
           (let (voice, self) = allocate_voice self
            in self\<lparr>voices := (voices self)[voice :=
                 (voices self ! voice)
                   \<lparr>note_voice := msg1,
                    frequency_voice := note_number_to_frequency (real (unat msg1) + bend_scaled self),
                    velocity := real (unat msg2) / 127\<rparr>]\<rparr>)
         else if ty = LV2_MIDI_MSG_NOTE_PRESSURE then
           self\<lparr>voices :=
             map (\<lambda>vc. if note_voice vc = msg1 \<and> velocity vc > 0 \<and> msg2 > 0
                        then vc\<lparr>velocity := real (unat msg2) / 127\<rparr> else vc)
                 (voices self)\<rparr>
         else if ty = LV2_MIDI_MSG_NOTE_OFF then
           self\<lparr>voices :=
             map (\<lambda>vc. if note_voice vc = msg1 then vc\<lparr>velocity := 0\<rparr> else vc) (voices self)\<rparr>
         else if ty = LV2_MIDI_MSG_BENDER then
           (let b = real_of_int (int (unat msg1) OR push_bit 7 (int (unat msg2))) - 8192;
                b = b / (if b \<ge> 0 then 8191 else 8192)
            in update_bend b (bendrange self) self)
         else if ty = LV2_MIDI_MSG_CONTROLLER then
           (let controller = unat msg1
            in if controller < CV_COUNT then
                 (let self = self\<lparr>cv := (cv self)[controller := real (unat msg2) / 127],
                                   send_cv_change_to_gui := True\<rparr>;
                      found = (int controller \<in> set (take (set_cv_count self) (set_cv_indices self)))
                  in if \<not> found then
                       self\<lparr>set_cv_indices := (set_cv_indices self)[set_cv_count self := int controller],
                            set_cv_count := set_cv_count self + 1\<rparr>
                     else self)
               else self)
         else self)"

fun read_set_float_array :: "TupleElem list \<Rightarrow> nat \<Rightarrow> int \<Rightarrow> real list \<Rightarrow> real list" where
  "read_set_float_array [] array_size index array = array"
| "read_set_float_array (IntElem i # es) array_size index array =
     read_set_float_array es array_size i array"
| "read_set_float_array (FloatElem x # es) array_size index array =
     read_set_float_array es array_size index
       (if index \<ge> 0 \<and> index < int array_size then array[nat index := x] else array)"
| "read_set_float_array (OtherElem # es) array_size index array =
     read_set_float_array es array_size index array"

definition receive_atom_object :: "AtomObject \<Rightarrow> 'p Csynth \<Rightarrow> 'p Csynth" where
  "receive_atom_object obj self =
     (case obj of
        Set_codepath path \<Rightarrow> self\<lparr>scheduled := scheduled self @ [WorkObject obj]\<rparr>
      | Set_cv tuple \<Rightarrow> self\<lparr>cv := read_set_float_array tuple CV_COUNT 0 (cv self)\<rparr>
      | Set_autobuild i \<Rightarrow> self\<lparr>autobuild := i\<rparr>
      | Set_polyphony i \<Rightarrow> self\<lparr>polyphony := i\<rparr>
      | Set_bendrange x \<Rightarrow> update_bend (bend self) x self
      | Set_other \<Rightarrow> self
      | Get \<Rightarrow>
          self\<lparr>send_patch_change_to_gui := True, send_autobuild_change_to_gui := True,
               send_polyphony_change_to_gui := True, send_bendrange_change_to_gui := True,
               set_cv_indices := map int [0..<CV_COUNT], set_cv_count := CV_COUNT,
               send_cv_change_to_gui := True\<rparr>
      | OtherObject \<Rightarrow> self)"

text \<open>
  Audio processing.  \<open>memset_zero mem start n\<close> is \<^verbatim>\<open>memset(out + start, 0, n * sizeof(float))\<close>;
  the count \<^verbatim>\<open>end - start\<close> is computed in \<^verbatim>\<open>uint32_t\<close> and wraps when the end lies before the
  start.  \<open>step_voices\<close> is the loop over the voices for one sample, \<open>render_samples\<close> the loop
  over the samples.  \<open>write_samples\<close> returns \<open>None\<close> where the call writes outside the
  host's buffer, or the patch is marked loaded without a library or a step function.
\<close>

definition memset_zero :: "(nat \<Rightarrow> real) \<Rightarrow> nat \<Rightarrow> nat \<Rightarrow> nat \<Rightarrow> real" where
  "memset_zero mem start n = (\<lambda>i. if start \<le> i \<and> i < start + n then 0 else mem i)"

fun step_voices ::
  "'p StepFunc \<Rightarrow> real list \<Rightarrow> Voice list \<Rightarrow> nat \<Rightarrow> 'p \<Rightarrow> real \<Rightarrow> real \<times> 'p" where
  "step_voices f cv0 [] v l sample = (sample, l)"
| "step_voices f cv0 (voice # rest) v l sample =
     (let (x, l) = f l v (frequency_voice voice) (velocity voice) cv0
      in step_voices f cv0 rest (v + 1) l (sample + x))"

fun render_samples ::
  "'p StepFunc \<Rightarrow> real list \<Rightarrow> Voice list \<Rightarrow> nat \<Rightarrow> nat \<Rightarrow> 'p \<Rightarrow> (nat \<Rightarrow> real) \<Rightarrow> (nat \<Rightarrow> real) \<times> 'p" where
  "render_samples f cv0 vs 0 i l mem = (mem, l)"
| "render_samples f cv0 vs (Suc n) i l mem =
     (let (sample, l) = step_voices f cv0 vs 0 l 0
      in render_samples f cv0 vs n (i + 1) l (mem(i := sample)))"

definition write_samples :: "'p Csynth \<Rightarrow> 32 word \<Rightarrow> 32 word \<Rightarrow> 'p Csynth option" where
  "write_samples self start end0 =
     (let silence =
            (if unat start + unat (end0 - start) \<le> out_size self
             then Some (self\<lparr>out := memset_zero (out self) (unat start) (unat (end0 - start))\<rparr>)
             else None)
      in case patch self of
           None \<Rightarrow> silence
         | Some pt \<Rightarrow>
             if \<not> loaded pt then silence
             else
               (let vs = take (get_voice_count self) (voices self)
                in case (step pt, lib pt) of
                     (Some f, Some l) \<Rightarrow>
                       (let n = unat end0 - unat start;
                            (mem, l) = render_samples f (cv self) vs n (unat start) l (out self)
                        in if n = 0 \<or> unat end0 \<le> out_size self
                           then Some (self\<lparr>out := mem, patch := Some (pt\<lparr>lib := Some l\<rparr>),
                                           step_calls := step_calls self + n * length vs\<rparr>)
                           else None)
                   | _ \<Rightarrow> None))"

text \<open>
  \<^verbatim>\<open>run\<close>.  \<open>run_notify\<close> is what precedes the loop over the incoming events: the properties
  marked as changed are written to the notify port, which is left out, and the marks are
  cleared.  \<open>run_event\<close> is the body of the loop on the pair of the instance and
  \<^verbatim>\<open>start_sample\<close>; \<^verbatim>\<open>event_sample\<close> is the frame time converted to \<^verbatim>\<open>uint32_t\<close>.
\<close>

definition run_notify :: "'p Csynth \<Rightarrow> 'p Csynth" where
  "run_notify self =
     self\<lparr>send_patch_change_to_gui := False,
          send_autobuild_change_to_gui := False,
          send_polyphony_change_to_gui := False,
          send_bendrange_change_to_gui := False,
          send_cv_change_to_gui := False,
          set_cv_count := (if send_cv_change_to_gui self then 0 else set_cv_count self)\<rparr>"

definition receive_event :: "Event \<Rightarrow> 'p Csynth \<Rightarrow> 'p Csynth" where
  "receive_event ev self =
     (case body ev of
        MidiEvent msg0 msg1 msg2 \<Rightarrow> receive_midi_event msg0 msg1 msg2 self
      | ObjectEvent obj \<Rightarrow> receive_atom_object obj self
      | OtherEvent \<Rightarrow> self)"

definition run_event :: "32 word \<Rightarrow> Event \<Rightarrow> 'p Csynth \<times> 32 word \<Rightarrow> ('p Csynth \<times> 32 word) option" where
  "run_event sample_count ev st =
     (let (self, start_sample) = st;
          event_sample = (word_of_int (time_frames ev) :: 32 word);
          event_sample = (if event_sample > sample_count then event_sample else event_sample)
      in case write_samples self start_sample event_sample of
           None \<Rightarrow> None
         | Some self \<Rightarrow> Some (receive_event ev self, event_sample))"

fun run_events :: "32 word \<Rightarrow> Event list \<Rightarrow> 'p Csynth \<times> 32 word \<Rightarrow> ('p Csynth \<times> 32 word) option" where
  "run_events sample_count [] st = Some st"
| "run_events sample_count (ev # evs) st =
     (case run_event sample_count ev st of
        None \<Rightarrow> None
      | Some st \<Rightarrow> run_events sample_count evs st)"

definition run :: "32 word \<Rightarrow> Event list \<Rightarrow> 'p Csynth \<Rightarrow> 'p Csynth option" where
  "run sample_count midi_in self =
     (case run_events sample_count midi_in (run_notify self, 0) of
        None \<Rightarrow> None
      | Some (self, start_sample) \<Rightarrow> write_samples self start_sample sample_count)"

text \<open>
  The worker.  What the operating system and the compiler answer is the environment of a
  build: whether \<^verbatim>\<open>malloc\<close>, \<^verbatim>\<open>fopen\<close> and \<^verbatim>\<open>popen\<close> succeed, the temporary file names, the
  compiler's output, whether the library file exists afterwards, and what \<^verbatim>\<open>dlopen\<close> and
  \<^verbatim>\<open>dlsym\<close> return; \<open>malloc_address\<close> is the pointer a successful \<^verbatim>\<open>malloc\<close> returns.
  \<open>get_patch\<close> and \<open>work\<close> return, besides their result, the patches they dispose of; the
  result of \<open>work\<close> is the list of its calls of \<^verbatim>\<open>respond\<close>.
\<close>

record 'p BuildEnv =
  malloc_ok :: bool
  malloc_address :: "64 word"
  fopen_ok :: bool
  popen_ok :: bool
  temp_names :: "string \<times> string"
  compiler_output :: string
  lib_exists :: bool
  dlopen_result :: "'p option"
  dlsym_result :: "'p StepFunc option"

definition PATCH_PATH_BUFFER_LEN :: nat where "PATCH_PATH_BUFFER_LEN = 1024"
definition PATCH_OUTPUT_BUFFER_LEN :: nat where "PATCH_OUTPUT_BUFFER_LEN = 1024"

definition build_patch :: "'p BuildEnv \<Rightarrow> string \<Rightarrow> 'p Patch option" where
  "build_patch env path =
     (if \<not> malloc_ok env then None
      else
        (let pt = \<lparr>address = malloc_address env,
                   code_path = take (PATCH_PATH_BUFFER_LEN - 1) path,
                   tmp_path = take (PATCH_PATH_BUFFER_LEN - 1) (fst (temp_names env)),
                   lib_path = take (PATCH_PATH_BUFFER_LEN - 1) (snd (temp_names env)),
                   output_text = [], built = False, loaded = False, lib = None, step = None\<rparr>
         in if \<not> fopen_ok env then Some pt
            else if \<not> popen_ok env then Some pt
            else Some (pt\<lparr>output_text := take PATCH_OUTPUT_BUFFER_LEN (compiler_output env),
                           built := lib_exists env\<rparr>)))"

definition load_patch :: "'p BuildEnv \<Rightarrow> 'p Patch \<Rightarrow> 'p Patch" where
  "load_patch env pt =
     (if loaded pt then pt
      else
        (let pt = (if lib pt = None then pt\<lparr>lib := dlopen_result env\<rparr> else pt)
         in if lib pt = None then pt
            else
              (let pt = pt\<lparr>step := dlsym_result env\<rparr>
               in if step pt = None then pt else pt\<lparr>loaded := True\<rparr>)))"

definition get_patch :: "'p BuildEnv \<Rightarrow> string \<Rightarrow> bool \<Rightarrow> 'p Patch option \<times> 'p Patch list" where
  "get_patch env path dispose_invalid =
     (case build_patch env path of
        None \<Rightarrow> (None, [])
      | Some pt \<Rightarrow>
          if \<not> built pt then (Some pt, [])
          else
            (let pt = load_patch env pt
             in if \<not> loaded pt then
                  (if dispose_invalid then (None, [pt]) else (Some pt, []))
                else (Some pt, [])))"

text \<open>
  \<^verbatim>\<open>work\<close> reads every message as an \<^verbatim>\<open>LV2_Atom_Object\<close> and tests \<^verbatim>\<open>obj->body.otype\<close>.  In the
  \<^verbatim>\<open>PatchAtom\<close> that \<^verbatim>\<open>work_response\<close> schedules, the eight bytes after the atom header hold
  the pointer to the patch, so that on a 64-bit little-endian machine \<^verbatim>\<open>body.id\<close> is the
  lower and \<^verbatim>\<open>body.otype\<close> the upper half of the pointer: it is this half that is compared
  with the identifier of \<^verbatim>\<open>csynth:disposeLib\<close>.  Read as an object the message has no
  properties, so the branch for \<^verbatim>\<open>patch:Set\<close> does nothing with it either.
\<close>

definition PatchAtom_otype :: "'p Patch \<Rightarrow> LV2_URID" where
  "PatchAtom_otype pt = ucast (drop_bit 32 (address pt))"

definition work :: "'p Csynth \<Rightarrow> 'p BuildEnv \<Rightarrow> 'p WorkMessage \<Rightarrow> 'p Patch list \<times> 'p Patch list" where
  "work self env msg =
     (case msg of
        DisposeLib pt \<Rightarrow>
          if PatchAtom_otype pt = csynth_disposeLib (uris self) then ([], [pt]) else ([], [])
      | WorkObject (Set_codepath path) \<Rightarrow>
          (case get_patch env path True of
             (Some pt, disposed) \<Rightarrow> ([pt], disposed)
           | (None, disposed) \<Rightarrow> ([], disposed))
      | WorkObject _ \<Rightarrow> ([], []))"

definition work_response :: "'p Csynth \<Rightarrow> 'p Patch \<Rightarrow> 'p Csynth" where
  "work_response self pt =
     (let self = (case patch self of
                    Some old \<Rightarrow> self\<lparr>scheduled := scheduled self @ [DisposeLib old]\<rparr>
                  | None \<Rightarrow> self)
      in self\<lparr>patch := Some pt\<rparr>)"

text \<open>
  A request to build a patch, through the host: the message scheduled by
  \<open>receive_atom_object\<close> for the code path reaches \<open>work\<close>, and the host hands every
  response to \<open>work_response\<close>.
\<close>

definition request_patch_build :: "'p BuildEnv \<Rightarrow> string \<Rightarrow> 'p Csynth \<Rightarrow> 'p Csynth" where
  "request_patch_build env path self =
     (let (responses, disposed) = work self env (WorkObject (Set_codepath path))
      in foldl work_response self responses)"

text \<open>
  A host.  Its map numbers the URIs the plugin asks for from 1 on, in the order of
  \<^verbatim>\<open>map_csynth_uris\<close>; it is the host of the evaluations below.
\<close>

definition host_uris :: "string list" where
  "host_uris =
     [LV2_ATOM__Tuple, LV2_ATOM__Int, LV2_ATOM__Float, LV2_ATOM__Path, LV2_ATOM__String,
      LV2_ATOM__URID, LV2_ATOM__eventTransfer, CSYNTH__codepath, CSYNTH__autobuild,
      CSYNTH__polyphony, CSYNTH__bendrange, CSYNTH__cv, CSYNTH__disposeLib,
      LV2_MIDI__MidiEvent, LV2_PATCH__Get, LV2_PATCH__Set, LV2_PATCH__property,
      LV2_PATCH__value, LV2_STATE__mapPath]"

definition host_map :: "string \<Rightarrow> LV2_URID" where
  "host_map uri = word_of_nat (Suc (length (takeWhile (\<lambda>u. u \<noteq> uri) host_uris)))"

section \<open>The reference algorithm of the rectifier\<close>

lemma ceil_shift: "0 < r \<Longrightarrow> \<lceil>(d - r) / r\<rceil> = \<lceil>d / r\<rceil> - 1" for d r :: real
  by (simp add: diff_divide_distrib)

lemma reflect_measure_decr:
  fixes d r :: real
  assumes r: "0 < r" and d: "0 < d"
  shows "nat \<lceil>max (- d) (d - r) / r\<rceil> < nat \<lceil>d / r\<rceil>"
proof -
  have pos: "0 < \<lceil>d / r\<rceil>" using r d by (simp add: less_ceiling_iff)
  have "\<lceil>max (- d) (d - r) / r\<rceil> < \<lceil>d / r\<rceil>"
  proof (cases "d \<le> r")
    case True
    then have "max (- d) (d - r) \<le> 0" using d by simp
    then have "max (- d) (d - r) / r \<le> 0" using r by (simp add: divide_nonpos_pos)
    then have "\<lceil>max (- d) (d - r) / r\<rceil> \<le> 0" by (simp add: ceiling_le_iff)
    then show ?thesis using pos by linarith
  next
    case False
    then have "max (- d) (d - r) = d - r" using d r by simp
    then show ?thesis using ceil_shift[OF r, of d] by simp
  qed
  then show ?thesis using pos by linarith
qed

text \<open>
  The reference algorithm in the words of the specification: reflect the sample across
  whichever bound it exceeds, again and again, until it lies within the range.  An empty
  or inverted range leaves the sample alone, as the source's guard does.
\<close>

function reflect_iteratively :: "real \<Rightarrow> real \<Rightarrow> real \<Rightarrow> real" where
  "reflect_iteratively lo hi s =
     (if hi \<le> lo then s
      else if s < lo then reflect_iteratively lo hi (lo + (lo - s))
      else if s > hi then reflect_iteratively lo hi (hi - (s - hi))
      else s)"
  by pat_completeness auto

termination
proof (relation "measure (\<lambda>(lo, hi, s). nat \<lceil>max (lo - s) (s - hi) / (hi - lo)\<rceil>)", goal_cases)
  case 1 show ?case by simp
next
  case (2 lo hi s)
  have old: "max (lo - s) (s - hi) = lo - s" using 2 by simp
  have new: "max (lo - (lo + (lo - s))) (lo + (lo - s) - hi) = max (- (lo - s)) ((lo - s) - (hi - lo))"
    by (simp add: algebra_simps)
  show ?case unfolding in_measure prod.case old new
    by (rule reflect_measure_decr) (use 2 in simp_all)
next
  case (3 lo hi s)
  have old: "max (lo - s) (s - hi) = s - hi" using 3 by simp
  have new: "max (lo - (hi - (s - hi))) (hi - (s - hi) - hi) = max (- (s - hi)) ((s - hi) - (hi - lo))"
    by (simp add: algebra_simps max.commute)
  show ?case unfolding in_measure prod.case old new
    by (rule reflect_measure_decr) (use 3 in simp_all)
qed

text \<open>
  The closed form in exact arithmetic, in the words of the specification: the reflection
  count is \<open>\<lfloor>delta / range\<rfloor>\<close> and its parity selects the final position.
\<close>

definition reflect_closed_form :: "real \<Rightarrow> real \<Rightarrow> real \<Rightarrow> real" where
  "reflect_closed_form lo hi s =
     (let range = hi - lo in
      if range > 0 then
        (if s < lo then
           (let delta = lo - s;
                flips = \<lfloor>delta / range\<rfloor>
            in if even flips then lo + fmod delta range else hi - fmod delta range)
         else if s > hi then
           (let delta = s - hi;
                flips = \<lfloor>delta / range\<rfloor>
            in if even flips then hi - fmod delta range else lo + fmod delta range)
         else s)
      else s)"

text \<open>
  The inputs at which the float arithmetic of \<^verbatim>\<open>Rectifier::step\<close> is exact: the range, the
  distance to the exceeded bound and the result are floats, and the rounded quotient has
  the floor of the exact one, which an \<^verbatim>\<open>int\<close> holds.
\<close>

definition is_float :: "real \<Rightarrow> bool" where
  "is_float x = (to_float x = Some x)"

definition Rectifier_exact :: "real \<Rightarrow> real \<Rightarrow> real \<Rightarrow> bool" where
  "Rectifier_exact lo hi s =
     (is_float (hi - lo)
      \<and> (if lo \<le> s \<and> s \<le> hi then True
         else
           (let delta = (if s < lo then lo - s else s - hi)
            in is_float delta
               \<and> (case to_float (delta / (hi - lo)) of
                     None \<Rightarrow> False
                   | Some q \<Rightarrow> \<lfloor>q\<rfloor> = \<lfloor>delta / (hi - lo)\<rfloor> \<and> \<lfloor>q\<rfloor> < 2 ^ 31)
               \<and> is_float (reflect_closed_form lo hi s))))"

section \<open>Properties of the base oscillator\<close>

lemma fmod_1_range:
  assumes "1 \<le> x"
  shows "0 \<le> fmod x 1" "fmod x 1 < 1"
proof -
  have "fmod x 1 = x - of_int \<lfloor>x\<rfloor>" using assms by (simp add: fmod_def c_trunc_def)
  then show "0 \<le> fmod x 1" "fmod x 1 < 1" by linarith+
qed

lemma Oscillator_step_phase:
  assumes "0 \<le> STEP_TIME" "0 \<le> frequency osc" "0 \<le> phase osc" "phase osc < 1"
  shows "0 \<le> phase (fst (snd (Oscillator_step STEP_TIME osc)))"
    and "phase (fst (snd (Oscillator_step STEP_TIME osc))) < 1"
    and "\<forall>slave ph. snd (snd (Oscillator_step STEP_TIME osc)) = Some (slave, ph) \<longrightarrow> 0 \<le> ph \<and> ph < 1"
    and "frequency (fst (snd (Oscillator_step STEP_TIME osc))) = frequency osc"
  using assms fmod_1_range [of "phase osc + STEP_TIME * frequency osc"]
  by (auto simp: Oscillator_step_def Let_def)



section \<open>Properties of the patch lifecycle\<close>

text \<open>
  Where the library was built and fails to load, or the patch could not be allocated,
  no response is sent and nothing changes; where the build fails, the unbuilt patch is
  installed.
\<close>

lemma get_patch_load_failure:
  assumes "malloc_ok env" "fopen_ok env" "popen_ok env" "lib_exists env"
      and "dlopen_result env = None \<or> dlsym_result env = None"
  shows "fst (get_patch env path True) = None"
  using assms
  by (auto simp: get_patch_def build_patch_def load_patch_def Let_def)

lemma request_patch_build_load_failure:
  assumes "malloc_ok env" "fopen_ok env" "popen_ok env" "lib_exists env"
      and "dlopen_result env = None \<or> dlsym_result env = None"
  shows "request_patch_build env path self = self"
  using get_patch_load_failure [OF assms, of path]
  by (auto simp: request_patch_build_def work_def split: prod.splits option.splits)

lemma request_patch_build_no_memory:
  assumes "\<not> malloc_ok env"
  shows "request_patch_build env path self = self"
  using assms
  by (simp add: request_patch_build_def work_def get_patch_def build_patch_def)

lemma request_patch_build_build_failure:
  assumes "malloc_ok env" "\<not> fopen_ok env \<or> \<not> popen_ok env \<or> \<not> lib_exists env"
  shows "\<exists>pt. patch (request_patch_build env path self) = Some pt \<and> \<not> built pt \<and> \<not> loaded pt"
  using assms
  by (auto simp: request_patch_build_def work_def get_patch_def build_patch_def work_response_def
        Let_def split: option.splits)

lemma request_patch_build_success:
  assumes "malloc_ok env" "fopen_ok env" "popen_ok env" "lib_exists env"
      and "dlopen_result env = Some l" "dlsym_result env = Some f"
  shows "\<exists>pt. patch (request_patch_build env path self) = Some pt \<and> built pt \<and> loaded pt
              \<and> lib pt = Some l \<and> step pt = Some f"
  using assms
  by (auto simp: request_patch_build_def work_def get_patch_def build_patch_def load_patch_def
        work_response_def Let_def split: option.splits)


text \<open>
  Claim C1 at a failing build.  A first request builds and loads \<^verbatim>\<open>first.cpp\<close>, which is
  installed and renders the sample 1.  A second request for \<^verbatim>\<open>second.cpp\<close> fails in the
  compiler: no library file exists, so \<^verbatim>\<open>built\<close> stays 0.  \<^verbatim>\<open>get_patch\<close> returns that patch all
  the same, \<^verbatim>\<open>work\<close> responds with it and \<^verbatim>\<open>work_response\<close> installs it: the installed patch
  is now the unbuilt one, the first patch is scheduled for disposal, and \<^verbatim>\<open>run\<close> renders
  silence.
\<close>

theorem request_patch_build_installs_unbuilt_patch:
  "let good = \<lparr>malloc_ok = True, malloc_address = 0x7F3A5C0010A0,
               fopen_ok = True, popen_ok = True,
               temp_names = (''/tmp/csynth-patch-1-1.cpp'', ''/tmp/csynth-patch-1-1.so''),
               compiler_output = [], lib_exists = True,
               dlopen_result = Some (), dlsym_result = Some (\<lambda>l v f vel cv0. (1, l))\<rparr>;
       bad = \<lparr>malloc_ok = True, malloc_address = 0x7F3A5C0024D0,
              fopen_ok = True, popen_ok = True,
              temp_names = (''/tmp/csynth-patch-2-2.cpp'', ''/tmp/csynth-patch-2-2.so''),
              compiler_output = ''error: expected ;'', lib_exists = False,
              dlopen_result = None, dlsym_result = None\<rparr>;
       self = request_patch_build good ''first.cpp''
                (connect_port CSYNTH_OUT (\<lambda>i. 0) 1 (instantiate 48000 host_map :: unit Csynth));
       self' = request_patch_build bad ''second.cpp'' self
   in map_option (\<lambda>pt. (code_path pt, built pt, loaded pt)) (patch self) = Some (''first.cpp'', True, True)
      \<and> map_option (\<lambda>pt. (code_path pt, built pt, loaded pt)) (patch self') = Some (''second.cpp'', False, False)
      \<and> map (\<lambda>m. case m of DisposeLib pt \<Rightarrow> code_path pt | WorkObject _ \<Rightarrow> []) (scheduled self') = [''first.cpp'']
      \<and> map_option (\<lambda>s. out s 0) (run 1 [] self) = Some 1
      \<and> map_option (\<lambda>s. out s 0) (run 1 [] self') = Some 0"
  by (simp add: request_patch_build_def work_def get_patch_def build_patch_def load_patch_def
        work_response_def instantiate_def Let_def PATCH_PATH_BUFFER_LEN_def PATCH_OUTPUT_BUFFER_LEN_def
        run_def run_notify_def connect_port_def write_samples_def get_voice_count_def
        MAX_VOICE_COUNT_def memset_zero_def)

text \<open>
  The patch scheduled for disposal is disposed of only if the upper half of its address
  happens to equal the identifier of \<^verbatim>\<open>csynth:disposeLib\<close>; with the address and the host
  above (identifier 13) it is not.
\<close>

lemma work_DisposeLib_not_disposed:
  assumes "PatchAtom_otype pt \<noteq> csynth_disposeLib (uris self)"
  shows "work self env (DisposeLib pt) = ([], [])"
  using assms by (simp add: work_def)

lemma host_map_disposeLib: "csynth_disposeLib (map_csynth_uris host_map) = 13"
  by (simp add: map_csynth_uris_def host_map_def host_uris_def CSYNTH__disposeLib_def
        CSYNTH__codepath_def CSYNTH__autobuild_def CSYNTH__polyphony_def CSYNTH__bendrange_def
        CSYNTH__cv_def CSYNTH_URI_def LV2_ATOM__Tuple_def LV2_ATOM__Int_def LV2_ATOM__Float_def
        LV2_ATOM__Path_def LV2_ATOM__String_def LV2_ATOM__URID_def LV2_ATOM__eventTransfer_def)

lemma work_DisposeLib_example:
  "work (instantiate 48000 host_map :: unit Csynth) env
     (DisposeLib \<lparr>address = 0x7F3A5C0010A0, code_path = ''first.cpp'',
                  tmp_path = ''/tmp/csynth-patch-1-1.cpp'', lib_path = ''/tmp/csynth-patch-1-1.so'',
                  output_text = [], built = True, loaded = True, lib = Some (),
                  step = Some (\<lambda>l v f vel cv0. (1, l))\<rparr>) = ([], [])"
  by (rule work_DisposeLib_not_disposed)
     (simp add: PatchAtom_otype_def instantiate_def host_map_disposeLib drop_bit_eq_div)

section \<open>Properties of voice allocation\<close>

lemma allocate_scan_invariant:
  assumes "\<forall>i < k. 0 \<le> allocation_index (vs ! i)"
  shows "case foldl (allocate_scan vs) (0, - 1) [0..<k] of
           (index, minimum_index) \<Rightarrow>
             if \<exists>i < k. \<not> velocity (vs ! i) > 0 then
               index < k \<and> \<not> velocity (vs ! index) > 0
               \<and> minimum_index = allocation_index (vs ! index)
               \<and> (\<forall>j < k. \<not> velocity (vs ! j) > 0 \<longrightarrow>
                     allocation_index (vs ! index) < allocation_index (vs ! j)
                     \<or> (allocation_index (vs ! index) = allocation_index (vs ! j) \<and> index \<le> j))
             else index = 0 \<and> minimum_index = - 1"
  using assms
proof (induction k)
  case 0
  then show ?case by simp
next
  case (Suc k)
  obtain index m where acc: "foldl (allocate_scan vs) (0, - 1) [0..<k] = (index, m)"
    by (cases "foldl (allocate_scan vs) (0, - 1) [0..<k]")
  have nonneg: "\<forall>i < k. 0 \<le> allocation_index (vs ! i)" and nk: "0 \<le> allocation_index (vs ! k)"
    using Suc.prems by simp_all
  note IH = Suc.IH [OF nonneg, unfolded acc, simplified]
  have step: "foldl (allocate_scan vs) (0, - 1) [0..<Suc k] = allocate_scan vs (index, m) k"
    by (simp add: acc)
  show ?case
  proof (cases "velocity (vs ! k) > 0")
    case True
    then have same: "(\<exists>i < Suc k. \<not> velocity (vs ! i) > 0) = (\<exists>i < k. \<not> velocity (vs ! i) > 0)"
      using less_Suc_eq by auto
    have res: "allocate_scan vs (index, m) k = (index, m)"
      using True by (simp add: allocate_scan_def)
    show ?thesis
      unfolding step res using IH True same
      by (auto simp: less_Suc_eq)
  next
    case False
    then have ex: "\<exists>i < Suc k. \<not> velocity (vs ! i) > 0" by blast
    show ?thesis
    proof (cases "\<exists>i < k. \<not> velocity (vs ! i) > 0")
      case none: False
      then have "index = 0" "m = - 1" using IH by simp_all
      then have res: "allocate_scan vs (index, m) k = (k, allocation_index (vs ! k))"
        using False by (simp add: allocate_scan_def)
      show ?thesis
        unfolding step res using ex none False
        by (auto simp: less_Suc_eq)
    next
      case some: True
      then have I: "index < k" "\<not> velocity (vs ! index) > 0" "m = allocation_index (vs ! index)"
        "\<forall>j < k. \<not> velocity (vs ! j) > 0 \<longrightarrow>
            allocation_index (vs ! index) < allocation_index (vs ! j)
            \<or> (allocation_index (vs ! index) = allocation_index (vs ! j) \<and> index \<le> j)"
        using IH by simp_all
      have m0: "0 \<le> m" using I(1,3) nonneg by simp
      show ?thesis
      proof (cases "allocation_index (vs ! k) < m")
        case True
        then have res: "allocate_scan vs (index, m) k = (k, allocation_index (vs ! k))"
          using False by (simp add: allocate_scan_def)
        have "\<forall>j < Suc k. \<not> velocity (vs ! j) > 0 \<longrightarrow>
            allocation_index (vs ! k) < allocation_index (vs ! j)
            \<or> (allocation_index (vs ! k) = allocation_index (vs ! j) \<and> k \<le> j)"
          using I(3,4) True by (auto simp: less_Suc_eq)
        then show ?thesis
          unfolding step res using ex False by simp
      next
        case ge: False
        then have res: "allocate_scan vs (index, m) k = (index, m)"
          using False m0 by (simp add: allocate_scan_def)
        have "\<forall>j < Suc k. \<not> velocity (vs ! j) > 0 \<longrightarrow>
            allocation_index (vs ! index) < allocation_index (vs ! j)
            \<or> (allocation_index (vs ! index) = allocation_index (vs ! j) \<and> index \<le> j)"
          using I ge by (auto simp: less_Suc_eq)
        then show ?thesis
          unfolding step res using ex I by simp
      qed
    qed
  qed
qed

lemma get_voice_count_range: "1 \<le> get_voice_count self" "get_voice_count self \<le> MAX_VOICE_COUNT"
  by (auto simp: get_voice_count_def Let_def MAX_VOICE_COUNT_def)

text \<open>
  Claim C2, amended.  For every call to \<^verbatim>\<open>allocate_voice\<close> on an instance whose recency
  counters are not negative: among the voices indexed \<open>[0, active_voice_count)\<close> whose
  velocity is not positive, the one with the lowest \<^verbatim>\<open>allocation_index\<close> is selected, ties
  broken by lowest index; and if no voice in that range is silent, voice 0 is selected.
\<close>

theorem allocate_voice_selects:
  assumes "\<forall>v \<in> set (voices self). 0 \<le> allocation_index v"
      and "length (voices self) = MAX_VOICE_COUNT"
  shows "let n = get_voice_count self; vs = voices self; index = fst (allocate_voice self)
         in if \<exists>i < n. velocity (vs ! i) \<le> 0 then
              index < n \<and> velocity (vs ! index) \<le> 0
              \<and> (\<forall>j < n. velocity (vs ! j) \<le> 0 \<longrightarrow>
                    allocation_index (vs ! index) < allocation_index (vs ! j)
                    \<or> (allocation_index (vs ! index) = allocation_index (vs ! j) \<and> index \<le> j))
            else index = 0"
proof -
  let ?n = "get_voice_count self"
  have "\<forall>i < ?n. 0 \<le> allocation_index (voices self ! i)"
    using assms get_voice_count_range(2) [of self] by simp
  from allocate_scan_invariant [OF this, unfolded not_less]
  show ?thesis
    by (simp add: allocate_voice_def Let_def split_beta split: if_splits)
qed


text \<open>
  The recency counters stay non-negative: \<^verbatim>\<open>allocate_voice\<close> is the only function that
  writes them, and it writes the global counter, which starts at 0 and grows.
\<close>

lemma allocate_voice_nonneg:
  assumes "\<forall>v \<in> set (voices self). 0 \<le> allocation_index v" "0 \<le> voice_allocation_index self"
  shows "\<forall>v \<in> set (voices (snd (allocate_voice self))). 0 \<le> allocation_index v"
    and "0 \<le> voice_allocation_index (snd (allocate_voice self))"
  using assms
  by (auto simp: allocate_voice_def Let_def split_beta dest!: set_update_subset_insert [THEN subsetD])

lemma upt_two: "[0..<2] = [0, Suc 0]"
  by (simp add: numeral_2_eq_2)

lemma get_voice_count_two: "polyphony self = 2 \<Longrightarrow> get_voice_count self = 2"
  by (simp add: get_voice_count_def MAX_VOICE_COUNT_def)

lemma allocate_voice_two:
  assumes "polyphony self = 2"
  shows "fst (allocate_voice self) =
           fst (allocate_scan (voices self) (allocate_scan (voices self) (0, - 1) 0) (Suc 0))"
    and "snd (allocate_voice self) =
           self\<lparr>voices := (voices self)[fst (allocate_voice self) :=
                    (voices self ! fst (allocate_voice self))
                      \<lparr>allocation_index := voice_allocation_index self\<rparr>],
                voice_allocation_index := voice_allocation_index self + 1\<rparr>"
  using assms
  by (simp_all add: allocate_voice_def get_voice_count_two upt_two split_beta)

lemma allocate_scan_index_less:
  "fst (allocate_scan vs (allocate_scan vs (0, - 1) 0) (Suc 0)) < 2"
  by (simp add: allocate_scan_def split_beta)

lemma note_on_type: "lv2_midi_message_type 0x90 = LV2_MIDI_MSG_NOTE_ON"
  by (simp add: lv2_midi_message_type_def LV2_MIDI_MSG_NOTE_ON_def)

lemma note_off_type: "lv2_midi_message_type 0x80 = LV2_MIDI_MSG_NOTE_OFF"
  by (simp add: lv2_midi_message_type_def LV2_MIDI_MSG_NOTE_OFF_def)

lemma note_on_two_voices:
  assumes "polyphony self = 2" "length (voices self) = 64" "j < 64"
  shows "polyphony (receive_midi_event 0x90 n v self) = 2"
    and "length (voices (receive_midi_event 0x90 n v self)) = 64"
    and "voice_allocation_index (receive_midi_event 0x90 n v self) = voice_allocation_index self + 1"
    and "velocity (voices (receive_midi_event 0x90 n v self) ! j) =
           (if j = fst (allocate_voice self) then real (unat v) / 127 else velocity (voices self ! j))"
    and "allocation_index (voices (receive_midi_event 0x90 n v self) ! j) =
           (if j = fst (allocate_voice self) then voice_allocation_index self
            else allocation_index (voices self ! j))"
    and "note_voice (voices (receive_midi_event 0x90 n v self) ! j) =
           (if j = fst (allocate_voice self) then n else note_voice (voices self ! j))"
proof -
  have idx: "fst (allocate_voice self) < 64"
    using allocate_scan_index_less [of "voices self"] allocate_voice_two(1) [OF assms(1)] by simp
  have ev: "receive_midi_event 0x90 n v self =
          (snd (allocate_voice self))\<lparr>voices := (voices (snd (allocate_voice self)))[fst (allocate_voice self) :=
                 (voices (snd (allocate_voice self)) ! fst (allocate_voice self))
                   \<lparr>note_voice := n,
                    frequency_voice := note_number_to_frequency
                       (real (unat n) + bend_scaled (snd (allocate_voice self))),
                    velocity := real (unat v) / 127\<rparr>]\<rparr>"
    by (simp add: receive_midi_event_def note_on_type split_beta)
  show "polyphony (receive_midi_event 0x90 n v self) = 2"
    and "length (voices (receive_midi_event 0x90 n v self)) = 64"
    and "voice_allocation_index (receive_midi_event 0x90 n v self) = voice_allocation_index self + 1"
    and "velocity (voices (receive_midi_event 0x90 n v self) ! j) =
           (if j = fst (allocate_voice self) then real (unat v) / 127 else velocity (voices self ! j))"
    and "allocation_index (voices (receive_midi_event 0x90 n v self) ! j) =
           (if j = fst (allocate_voice self) then voice_allocation_index self
            else allocation_index (voices self ! j))"
    and "note_voice (voices (receive_midi_event 0x90 n v self) ! j) =
           (if j = fst (allocate_voice self) then n else note_voice (voices self ! j))"
    unfolding ev allocate_voice_two(2) [OF assms(1)]
    using assms idx by (simp_all add: nth_list_update)
qed

lemma note_off_voices:
  assumes "length (voices self) = 64" "j < 64"
  shows "polyphony (receive_midi_event 0x80 n v self) = polyphony self"
    and "length (voices (receive_midi_event 0x80 n v self)) = 64"
    and "voice_allocation_index (receive_midi_event 0x80 n v self) = voice_allocation_index self"
    and "velocity (voices (receive_midi_event 0x80 n v self) ! j) =
           (if note_voice (voices self ! j) = n then 0 else velocity (voices self ! j))"
    and "allocation_index (voices (receive_midi_event 0x80 n v self) ! j) =
           allocation_index (voices self ! j)"
    and "note_voice (voices (receive_midi_event 0x80 n v self) ! j) = note_voice (voices self ! j)"
proof -
  have ne: "LV2_MIDI_MSG_NOTE_OFF \<noteq> LV2_MIDI_MSG_NOTE_ON"
    "LV2_MIDI_MSG_NOTE_OFF \<noteq> LV2_MIDI_MSG_NOTE_PRESSURE"
    by (simp_all add: LV2_MIDI_MSG_NOTE_OFF_def LV2_MIDI_MSG_NOTE_ON_def LV2_MIDI_MSG_NOTE_PRESSURE_def)
  have ev: "receive_midi_event 0x80 n v self =
          self\<lparr>voices := map (\<lambda>vc. if note_voice vc = n then vc\<lparr>velocity := 0\<rparr> else vc) (voices self)\<rparr>"
    by (simp add: receive_midi_event_def note_off_type ne)
  show "polyphony (receive_midi_event 0x80 n v self) = polyphony self"
    and "length (voices (receive_midi_event 0x80 n v self)) = 64"
    and "voice_allocation_index (receive_midi_event 0x80 n v self) = voice_allocation_index self"
    and "velocity (voices (receive_midi_event 0x80 n v self) ! j) =
           (if note_voice (voices self ! j) = n then 0 else velocity (voices self ! j))"
    and "allocation_index (voices (receive_midi_event 0x80 n v self) ! j) =
           allocation_index (voices self ! j)"
    and "note_voice (voices (receive_midi_event 0x80 n v self) ! j) = note_voice (voices self ! j)"
    unfolding ev using assms by simp_all
qed

lemma receive_midi_event_nonneg:
  assumes "\<forall>v \<in> set (voices self). 0 \<le> allocation_index v" "0 \<le> voice_allocation_index self"
  shows "\<forall>v \<in> set (voices (receive_midi_event m0 m1 m2 self)). 0 \<le> allocation_index v"
    and "0 \<le> voice_allocation_index (receive_midi_event m0 m1 m2 self)"
proof -
  note av = allocate_voice_nonneg [OF assms]
  have on: "\<forall>v \<in> set ((voices (snd (allocate_voice self)))[k :=
                (voices (snd (allocate_voice self)) ! k)\<lparr>note_voice := a, frequency_voice := b, velocity := c\<rparr>]).
              0 \<le> allocation_index v" for k a b c
  proof (cases "k < length (voices (snd (allocate_voice self)))")
    case True
    then have "0 \<le> allocation_index (voices (snd (allocate_voice self)) ! k)"
      using av(1) by (simp add: all_set_conv_all_nth)
    then show ?thesis
      using av(1) by (auto dest!: set_update_subset_insert [THEN subsetD])
  next
    case False
    then show ?thesis using av(1) by (simp add: list_update_beyond)
  qed
  show "\<forall>v \<in> set (voices (receive_midi_event m0 m1 m2 self)). 0 \<le> allocation_index v"
    using assms(1) on
    by (auto simp: receive_midi_event_def Let_def split_beta update_bend_def)
  show "0 \<le> voice_allocation_index (receive_midi_event m0 m1 m2 self)"
    using assms(2) av(2)
    by (auto simp: receive_midi_event_def Let_def split_beta update_bend_def)
qed

text \<open>
  A scenario with two active voices.  Polyphony is set to 2; note-ons for the notes 60, 62
  and 64 follow (the third takes voice 0 again), then note-offs for 62 and 64.  The facts
  give, after each event, the velocity and the recency of the two voices.
\<close>

lemma two_voice_scenario:
  fixes s0 :: "unit Csynth"
  assumes "s0 = receive_atom_object (Set_polyphony 2) (instantiate 48000 host_map)"
      and "s1 = receive_midi_event 0x90 60 100 s0"
      and "s2 = receive_midi_event 0x90 62 100 s1"
      and "s3 = receive_midi_event 0x90 64 100 s2"
      and "s4 = receive_midi_event 0x80 62 0 s3"
      and "s5 = receive_midi_event 0x80 64 0 s4"
  shows "polyphony s0 = 2 \<and> length (voices s0) = 64
         \<and> (\<forall>v \<in> set (voices s0). 0 \<le> allocation_index v)
         \<and> velocity (voices s0 ! 0) = 0 \<and> velocity (voices s0 ! Suc 0) = 0
         \<and> allocation_index (voices s0 ! 0) = 0 \<and> allocation_index (voices s0 ! Suc 0) = 0"
    and "polyphony s3 = 2 \<and> length (voices s3) = 64
         \<and> (\<forall>v \<in> set (voices s3). 0 \<le> allocation_index v)
         \<and> velocity (voices s3 ! 0) = 100 / 127 \<and> velocity (voices s3 ! Suc 0) = 100 / 127
         \<and> allocation_index (voices s3 ! 0) = 2 \<and> allocation_index (voices s3 ! Suc 0) = 1"
    and "polyphony s5 = 2 \<and> length (voices s5) = 64
         \<and> (\<forall>v \<in> set (voices s5). 0 \<le> allocation_index v)
         \<and> velocity (voices s5 ! 0) = 0 \<and> velocity (voices s5 ! Suc 0) = 0
         \<and> allocation_index (voices s5 ! 0) = 2 \<and> allocation_index (voices s5 ! Suc 0) = 1"
proof -
  have p0: "polyphony s0 = 2" and l0: "length (voices s0) = 64"
    and c0: "voice_allocation_index s0 = 0"
    and g0: "\<forall>v \<in> set (voices s0). 0 \<le> allocation_index v"
    and v0: "velocity (voices s0 ! 0) = 0" "velocity (voices s0 ! Suc 0) = 0"
    and a0: "allocation_index (voices s0 ! 0) = 0" "allocation_index (voices s0 ! Suc 0) = 0"
    and n0: "note_voice (voices s0 ! 0) = 0" "note_voice (voices s0 ! Suc 0) = 0"
    by (simp_all add: assms(1) receive_atom_object_def instantiate_def MAX_VOICE_COUNT_def)
  have i0: "fst (allocate_voice s0) = 0"
    by (simp add: allocate_voice_two(1) [OF p0] allocate_scan_def v0 a0)
  have p1: "polyphony s1 = 2" and l1: "length (voices s1) = 64"
    and c1: "voice_allocation_index s1 = 1"
    and v1: "velocity (voices s1 ! 0) = 100 / 127" "velocity (voices s1 ! Suc 0) = 0"
    and a1: "allocation_index (voices s1 ! 0) = 0" "allocation_index (voices s1 ! Suc 0) = 0"
    and n1: "note_voice (voices s1 ! 0) = 60" "note_voice (voices s1 ! Suc 0) = 0"
    unfolding assms(2)
    by (simp_all add: note_on_two_voices [OF p0 l0, of 0] note_on_two_voices [OF p0 l0, of "Suc 0"]
          i0 c0 v0 a0 n0)
  have g1: "\<forall>v \<in> set (voices s1). 0 \<le> allocation_index v"
    unfolding assms(2) using receive_midi_event_nonneg(1) [OF g0] c0 by simp
  have i1: "fst (allocate_voice s1) = Suc 0"
    by (simp add: allocate_voice_two(1) [OF p1] allocate_scan_def v1 a1)
  have p2: "polyphony s2 = 2" and l2: "length (voices s2) = 64"
    and c2: "voice_allocation_index s2 = 2"
    and v2: "velocity (voices s2 ! 0) = 100 / 127" "velocity (voices s2 ! Suc 0) = 100 / 127"
    and a2: "allocation_index (voices s2 ! 0) = 0" "allocation_index (voices s2 ! Suc 0) = 1"
    and n2: "note_voice (voices s2 ! 0) = 60" "note_voice (voices s2 ! Suc 0) = 62"
    unfolding assms(3)
    by (simp_all add: note_on_two_voices [OF p1 l1, of 0] note_on_two_voices [OF p1 l1, of "Suc 0"]
          i1 c1 v1 a1 n1)
  have g2: "\<forall>v \<in> set (voices s2). 0 \<le> allocation_index v"
    unfolding assms(3) using receive_midi_event_nonneg(1) [OF g1] c1 by simp
  have i2: "fst (allocate_voice s2) = 0"
    by (simp add: allocate_voice_two(1) [OF p2] allocate_scan_def v2 a2)
  have p3: "polyphony s3 = 2" and l3: "length (voices s3) = 64"
    and c3: "voice_allocation_index s3 = 3"
    and v3: "velocity (voices s3 ! 0) = 100 / 127" "velocity (voices s3 ! Suc 0) = 100 / 127"
    and a3: "allocation_index (voices s3 ! 0) = 2" "allocation_index (voices s3 ! Suc 0) = 1"
    and n3: "note_voice (voices s3 ! 0) = 64" "note_voice (voices s3 ! Suc 0) = 62"
    unfolding assms(4)
    by (simp_all add: note_on_two_voices [OF p2 l2, of 0] note_on_two_voices [OF p2 l2, of "Suc 0"]
          i2 c2 v2 a2 n2)
  have g3: "\<forall>v \<in> set (voices s3). 0 \<le> allocation_index v"
    unfolding assms(4) using receive_midi_event_nonneg(1) [OF g2] c2 by simp
  have p4: "polyphony s4 = 2" and l4: "length (voices s4) = 64"
    and c4: "voice_allocation_index s4 = 3"
    and v4: "velocity (voices s4 ! 0) = 100 / 127" "velocity (voices s4 ! Suc 0) = 0"
    and a4: "allocation_index (voices s4 ! 0) = 2" "allocation_index (voices s4 ! Suc 0) = 1"
    and n4: "note_voice (voices s4 ! 0) = 64" "note_voice (voices s4 ! Suc 0) = 62"
    unfolding assms(5)
    by (simp_all add: note_off_voices [OF l3, of 0] note_off_voices [OF l3, of "Suc 0"]
          p3 c3 v3 a3 n3)
  have g4: "\<forall>v \<in> set (voices s4). 0 \<le> allocation_index v"
    unfolding assms(5) using receive_midi_event_nonneg(1) [OF g3] c3 by simp
  have p5: "polyphony s5 = 2" and l5: "length (voices s5) = 64"
    and v5: "velocity (voices s5 ! 0) = 0" "velocity (voices s5 ! Suc 0) = 0"
    and a5: "allocation_index (voices s5 ! 0) = 2" "allocation_index (voices s5 ! Suc 0) = 1"
    unfolding assms(6)
    by (simp_all add: note_off_voices [OF l4, of 0] note_off_voices [OF l4, of "Suc 0"]
          p4 c4 v4 a4 n4)
  have g5: "\<forall>v \<in> set (voices s5). 0 \<le> allocation_index v"
    unfolding assms(6) using receive_midi_event_nonneg(1) [OF g4] c4 by simp
  show "polyphony s0 = 2 \<and> length (voices s0) = 64
         \<and> (\<forall>v \<in> set (voices s0). 0 \<le> allocation_index v)
         \<and> velocity (voices s0 ! 0) = 0 \<and> velocity (voices s0 ! Suc 0) = 0
         \<and> allocation_index (voices s0 ! 0) = 0 \<and> allocation_index (voices s0 ! Suc 0) = 0"
    using p0 l0 g0 v0 a0 by blast
  show "polyphony s3 = 2 \<and> length (voices s3) = 64
         \<and> (\<forall>v \<in> set (voices s3). 0 \<le> allocation_index v)
         \<and> velocity (voices s3 ! 0) = 100 / 127 \<and> velocity (voices s3 ! Suc 0) = 100 / 127
         \<and> allocation_index (voices s3 ! 0) = 2 \<and> allocation_index (voices s3 ! Suc 0) = 1"
    using p3 l3 g3 v3 a3 by blast
  show "polyphony s5 = 2 \<and> length (voices s5) = 64
         \<and> (\<forall>v \<in> set (voices s5). 0 \<le> allocation_index v)
         \<and> velocity (voices s5 ! 0) = 0 \<and> velocity (voices s5 ! Suc 0) = 0
         \<and> allocation_index (voices s5 ! 0) = 2 \<and> allocation_index (voices s5 ! Suc 0) = 1"
    using p5 l5 g5 v5 a5 by blast
qed

text \<open>
  Claim C2 fails where every active voice sounds.  With polyphony 2, after note-ons for
  the notes 60, 62 and 64 both voices sound, voice 1 is the least recently used (recency 1
  against 2), and \<^verbatim>\<open>allocate_voice\<close> selects voice 0.
\<close>

theorem allocate_voice_steals_voice_zero_counterexample:
  "let s = receive_midi_event 0x90 64 100
             (receive_midi_event 0x90 62 100
                (receive_midi_event 0x90 60 100
                   (receive_atom_object (Set_polyphony 2) (instantiate 48000 host_map :: unit Csynth))))
   in get_voice_count s = 2
      \<and> 0 < velocity (voices s ! 0) \<and> 0 < velocity (voices s ! 1)
      \<and> allocation_index (voices s ! 1) < allocation_index (voices s ! 0)
      \<and> fst (allocate_voice s) = 0"
proof -
  define s3 where "s3 = receive_midi_event 0x90 64 100
             (receive_midi_event 0x90 62 100
                (receive_midi_event 0x90 60 100
                   (receive_atom_object (Set_polyphony 2) (instantiate 48000 host_map :: unit Csynth))))"
  note f = two_voice_scenario(2) [OF refl refl refl s3_def refl refl]
  have p3: "polyphony s3 = 2" using f by blast
  have i3: "fst (allocate_voice s3) = 0"
    using f by (simp add: allocate_voice_two(1) [OF p3] allocate_scan_def)
  show ?thesis
    unfolding Let_def s3_def [symmetric]
    using get_voice_count_two [OF p3] f i3 by simp
qed

text \<open>
  Three instances of the theorem in that scenario.  At the start both voices are silent
  with equal recency, and voice 0 is selected (the tie goes to the lower index).  After the
  three note-ons both voices sound, and voice 0 is selected.  After the note-offs both are
  silent, voice 1 has the lower recency (1 against 2), and voice 1 is selected.
\<close>

theorem allocate_voice_selects_witness:
  "let s0 = receive_atom_object (Set_polyphony 2) (instantiate 48000 host_map :: unit Csynth);
       s3 = receive_midi_event 0x90 64 100
              (receive_midi_event 0x90 62 100 (receive_midi_event 0x90 60 100 s0));
       s5 = receive_midi_event 0x80 64 0 (receive_midi_event 0x80 62 0 s3)
   in list_all (\<lambda>v. 0 \<le> allocation_index v) (voices s0) \<and> length (voices s0) = MAX_VOICE_COUNT
      \<and> list_all (\<lambda>v. 0 \<le> allocation_index v) (voices s3) \<and> length (voices s3) = MAX_VOICE_COUNT
      \<and> list_all (\<lambda>v. 0 \<le> allocation_index v) (voices s5) \<and> length (voices s5) = MAX_VOICE_COUNT
      \<and> get_voice_count s0 = 2 \<and> get_voice_count s3 = 2 \<and> get_voice_count s5 = 2
      \<and> velocity (voices s0 ! 0) = 0 \<and> velocity (voices s0 ! 1) = 0
      \<and> allocation_index (voices s0 ! 0) = allocation_index (voices s0 ! 1)
      \<and> fst (allocate_voice s0) = 0
      \<and> 0 < velocity (voices s3 ! 0) \<and> 0 < velocity (voices s3 ! 1)
      \<and> fst (allocate_voice s3) = 0
      \<and> velocity (voices s5 ! 0) = 0 \<and> velocity (voices s5 ! 1) = 0
      \<and> allocation_index (voices s5 ! 1) < allocation_index (voices s5 ! 0)
      \<and> fst (allocate_voice s5) = 1"
proof -
  define s0 where "s0 = receive_atom_object (Set_polyphony 2) (instantiate 48000 host_map :: unit Csynth)"
  define s3 where "s3 = receive_midi_event 0x90 64 100
              (receive_midi_event 0x90 62 100 (receive_midi_event 0x90 60 100 s0))"
  define s5 where "s5 = receive_midi_event 0x80 64 0 (receive_midi_event 0x80 62 0 s3)"
  note f = two_voice_scenario [OF s0_def refl refl s3_def refl s5_def]
  have n: "get_voice_count s0 = 2" "get_voice_count s3 = 2" "get_voice_count s5 = 2"
    using f by (simp_all add: get_voice_count_two)
  have len: "length (voices s0) = MAX_VOICE_COUNT" "length (voices s3) = MAX_VOICE_COUNT"
    "length (voices s5) = MAX_VOICE_COUNT"
    using f by (simp_all add: MAX_VOICE_COUNT_def)
  have g: "\<forall>v \<in> set (voices s0). 0 \<le> allocation_index v"
    "\<forall>v \<in> set (voices s3). 0 \<le> allocation_index v"
    "\<forall>v \<in> set (voices s5). 0 \<le> allocation_index v"
    using f by blast+
  have two: "(\<forall>j < 2. P j) = (P 0 \<and> P (Suc 0))" "(\<exists>j < 2. P j) = (P 0 \<or> P (Suc 0))"
    for P :: "nat \<Rightarrow> bool"
    by (auto simp: less_2_cases_iff)
  have i0: "fst (allocate_voice s0) = 0"
    using allocate_voice_selects [OF g(1) len(1)] n(1) f(1)
    by (auto simp: Let_def two less_2_cases_iff split: if_splits)
  have i3: "fst (allocate_voice s3) = 0"
    using allocate_voice_selects [OF g(2) len(2)] n(2) f(2)
    by (auto simp: Let_def two less_2_cases_iff split: if_splits)
  have i5: "fst (allocate_voice s5) = 1"
    using allocate_voice_selects [OF g(3) len(3)] n(3) f(3)
    by (auto simp: Let_def two less_2_cases_iff split: if_splits)
  show ?thesis
    unfolding Let_def s0_def [symmetric] s3_def [symmetric] s5_def [symmetric]
    using f n len g i0 i3 i5 by (simp add: list_all_iff)
qed

section \<open>Properties of the generators' output range\<close>






lemma foldl_plus_sum_list:
  fixes xs :: "real list"
  shows "foldl (+) a xs = a + sum_list xs"
  by (induction xs arbitrary: a) simp_all
















text \<open>
  At another frequency the additive oscillator returns the sum of its partials, each read
  from a wave table that spans the whole range: two partials with the range \<open>[1, 2]\<close> give
  2.25 at the first step.
\<close>

lemma fill_wave_table_four:
  "fill_wave_table 4 ph st lo hi =
     [lo + ((sin ph + 1) / 2) * (hi - lo),
      lo + ((sin (ph + st) + 1) / 2) * (hi - lo),
      lo + ((sin (ph + st + st) + 1) / 2) * (hi - lo),
      lo + ((sin (ph + st + st + st) + 1) / 2) * (hi - lo)]"
  by (simp add: eval_nat_numeral)

lemma Additive_partials_exceed_range:
  "map_option fst (generator_step (1 / 64) (\<lambda>i. 0) (G_Additive (setRange 1 2 (Additive_new 2 16 (0, 0, 0, 0, 0)))))
     = Some (9 / 4)"
  by (simp add: Additive_step_def setRange_def Additive_new_def Oscillator_new_def
        Oscillator.extend_def Additive.fields_def wrap_step_def Oscillator.defs
        updateWaveTable_def Let_def fill_wave_table_four table_at_def c_rem_def fmod_def
        c_trunc_def upto.simps Oscillator_step_def split_beta)

text \<open>
  The classes whose step is the constant 0.0 in a well-formed state: their range has to
  contain 0.
\<close>

lemma generator_setRange_well_formed:
  assumes "generator_well_formed STEP_TIME g" "vmin \<le> vmax"
      and "(\<exists>x. g = G_Generator x) \<or> (\<exists>x. g = G_Oscillator x) \<or> (\<exists>x. g = G_Additive x)
             \<Longrightarrow> vmin \<le> 0 \<and> 0 \<le> vmax"
  shows "generator_well_formed STEP_TIME (generator_setRange vmin vmax g)"
  using assms by (cases g) (simp_all add: setRange_def)

lemma generator_set_frequency_well_formed:
  assumes "generator_well_formed STEP_TIME g" "0 \<le> f"
      and "\<And>x. g = G_Additive x \<Longrightarrow> f = 0 \<or> partialCount x < 1"
  shows "generator_well_formed STEP_TIME (generator_set_frequency f g)"
  using assms by (cases g) simp_all

lemma PinkNoise_new_well_formed:
  assumes "\<forall>i < PINK_NOISE_OCTAVE_COUNT. 0 \<le> rand i \<and> rand i \<le> RAND_MAX"
  shows "generator_well_formed STEP_TIME (G_PinkNoise (PinkNoise_new rand))"
  using assms
  by (auto simp: PinkNoise_new_def Let_def foldl_plus_sum_list list_all_iff RAND_MAX_def)

lemma BrownNoise_new_well_formed:
  "generator_well_formed STEP_TIME (G_BrownNoise BrownNoise_new)"
  by (simp add: BrownNoise_new_def)

section \<open>Properties of the ADSR envelope\<close>

lemmas ADSR_eval =
  ADSR_step_def setRange_def ADSR_new_def Trigger_new_def RiseTrigger_step_def
  FallTrigger_step_def Let_def

lemma ADSR_scenario_run:
  "ADSR_run (25 / 1000) [1, 1, 1, 1, 0, 0]
     (setRange 0 2 (ADSR_new (1 / 10) (1 / 10) (1 / 2) (1 / 10) 0 0))
   = [1 / 2, 1, 3 / 2, 2, 15 / 8, 7 / 4]"
  by (simp add: ADSR_eval)

text \<open>
  The first cycle of \<^verbatim>\<open>ADSR::test\<close> (phases two steps long, sustain 1.0), as the source
  asserts it; and the parameters under which the sequence of C4 does come out.
\<close>

lemma ADSR_test_run:
  "ADSR_run (1 / 64) [0, 0, 1, 1, 1, 1, 1, 0, 0, 0]
     (setRange 0 2 (ADSR_new (2 / 64) (2 / 64) 1 (2 / 64) 0 0))
   = [0, 0, 1, 2, 3 / 2, 1, 1, 1 / 2, 0, 0]"
  by (simp add: ADSR_eval)

lemma ADSR_two_step_phases_run:
  "ADSR_run (25 / 1000) [1, 1, 1, 1, 0, 0]
     (setRange 0 2 (ADSR_new (5 / 100) (5 / 100) 1 (5 / 100) 0 0))
   = [1, 2, 3 / 2, 1, 1 / 2, 0]"
  by (simp add: ADSR_eval)

text \<open>
  The sequence claimed by C4 for \<^verbatim>\<open>ADSR(0.1, 0.1, 0.5, 0.1)\<close> is not the one \<^verbatim>\<open>ADSR::step\<close>
  returns: the first sample is 0.5, not 1.0.
\<close>

theorem ADSR_scenario_counterexample:
  "ADSR_run (25 / 1000) [1, 1, 1, 1, 0, 0]
     (setRange 0 2 (ADSR_new (1 / 10) (1 / 10) (1 / 2) (1 / 10) 0 0))
   \<noteq> [1, 2, 3 / 2, 1, 1 / 2, 0]"
  unfolding ADSR_scenario_run by simp

text \<open>
  Claim C4, amended.  An envelope constructed as \<^verbatim>\<open>ADSR(0.1, 0.1, 0.5, 0.1)\<close> with range
  \<open>[0, 2]\<close> and a step time of 0.025 seconds, its triggers' \<^verbatim>\<open>last\<close> inputs at 0, stepped with
  the velocities \<open>[1, 1, 1, 1, 0, 0]\<close>, returns \<open>[0.5, 1.0, 1.5, 2.0, 1.875, 1.75]\<close>: four
  steps of attack, each a quarter of the range, then two steps of release, each a quarter
  of the sustain level.
\<close>

theorem ADSR_scenario_values:
  "ADSR_run (25 / 1000) [1, 1, 1, 1, 0, 0]
     (setRange 0 2 (ADSR_new (1 / 10) (1 / 10) (1 / 2) (1 / 10) 0 0))
   = [0.5, 1.0, 1.5, 2.0, 1.875, 1.75]"
  unfolding ADSR_scenario_run by simp

section \<open>Properties of rendering without a patch\<close>

lemma update_bend_keeps [simp]:
  "patch (update_bend b r self) = patch self"
  "out (update_bend b r self) = out self"
  "out_size (update_bend b r self) = out_size self"
  "step_calls (update_bend b r self) = step_calls self"
  by (simp_all add: update_bend_def Let_def)

lemma allocate_voice_keeps [simp]:
  "patch (snd (allocate_voice self)) = patch self"
  "out (snd (allocate_voice self)) = out self"
  "out_size (snd (allocate_voice self)) = out_size self"
  "step_calls (snd (allocate_voice self)) = step_calls self"
  by (simp_all add: allocate_voice_def Let_def split_beta)

lemma receive_midi_event_keeps [simp]:
  "patch (receive_midi_event m0 m1 m2 self) = patch self"
  "out (receive_midi_event m0 m1 m2 self) = out self"
  "out_size (receive_midi_event m0 m1 m2 self) = out_size self"
  "step_calls (receive_midi_event m0 m1 m2 self) = step_calls self"
  by (simp_all add: receive_midi_event_def Let_def split_beta)

lemma receive_atom_object_keeps [simp]:
  "patch (receive_atom_object obj self) = patch self"
  "out (receive_atom_object obj self) = out self"
  "out_size (receive_atom_object obj self) = out_size self"
  "step_calls (receive_atom_object obj self) = step_calls self"
  by (simp_all add: receive_atom_object_def split: AtomObject.splits)

lemma receive_event_keeps [simp]:
  "patch (receive_event ev self) = patch self"
  "out (receive_event ev self) = out self"
  "out_size (receive_event ev self) = out_size self"
  "step_calls (receive_event ev self) = step_calls self"
  by (simp_all add: receive_event_def split: EventBody.splits)

lemma run_notify_keeps [simp]:
  "patch (run_notify self) = patch self"
  "out (run_notify self) = out self"
  "out_size (run_notify self) = out_size self"
  "step_calls (run_notify self) = step_calls self"
  by (simp_all add: run_notify_def)

lemma write_samples_silent:
  assumes "patch self = None \<or> (\<exists>pt. patch self = Some pt \<and> \<not> loaded pt)"
  shows "write_samples self start end0 =
           (if unat start + unat (end0 - start) \<le> out_size self
            then Some (self\<lparr>out := memset_zero (out self) (unat start) (unat (end0 - start))\<rparr>)
            else None)"
  using assms by (auto simp: write_samples_def Let_def)







text \<open>
  So it is for every buffer of less than \<open>2 ^ 32\<close> floats and every single event past the
  block.
\<close>

lemma run_event_past_block_fails:
  assumes "patch self = None \<or> (\<exists>pt. patch self = Some pt \<and> \<not> loaded pt)"
      and "out_size self < 2 ^ 32"
      and "sample_count < word_of_int (time_frames ev)"
  shows "run sample_count [ev] self = None"
proof -
  let ?t = "word_of_int (time_frames ev) :: 32 word"
  have wrap: "unat ?t + unat (sample_count - ?t) = 2 ^ 32 + unat sample_count"
  proof -
    have lt: "unat sample_count < unat ?t" using assms(3) by (simp add: word_less_nat_alt)
    have "unat (sample_count - ?t) = 2 ^ 32 + unat sample_count - unat ?t"
      using lt by (simp add: unat_sub_if')
    moreover have "unat ?t < 2 ^ 32" using unsigned_less [of ?t, where ?'a = nat] by simp
    ultimately show ?thesis by linarith
  qed
  show ?thesis
  proof (cases "run_event sample_count ev (run_notify self, 0)")
    case None
    then show ?thesis by (simp add: run_def)
  next
    case (Some st)
    then obtain s1 where s1: "write_samples (run_notify self) 0 ?t = Some s1"
      and st: "st = (receive_event ev s1, ?t)"
      by (auto simp: run_event_def Let_def split: option.splits)
    have u0: "patch (run_notify self) = None \<or> (\<exists>pt. patch (run_notify self) = Some pt \<and> \<not> loaded pt)"
      using assms(1) by simp
    have "s1 = (run_notify self)\<lparr>out := memset_zero (out (run_notify self)) (unat (0 :: 32 word)) (unat (?t - 0))\<rparr>"
      using s1 write_samples_silent [OF u0, of 0 ?t] by (simp split: if_splits)
    then have k: "patch (receive_event ev s1) = patch self" "out_size (receive_event ev s1) = out_size self"
      by simp_all
    have u: "patch (receive_event ev s1) = None
             \<or> (\<exists>pt. patch (receive_event ev s1) = Some pt \<and> \<not> loaded pt)"
      using assms(1) k(1) by simp
    have "write_samples (receive_event ev s1) ?t sample_count = None"
      using write_samples_silent [OF u, of ?t sample_count] wrap assms(2) k(2) by simp
    then show ?thesis using Some st by (simp add: run_def)
  qed
qed

section \<open>Properties of the delay taps\<close>

lemma or_Set_flags:
  "(flags OR SampleOperationSet) AND SampleUnitSamples = SampleUnitSamples
     \<longleftrightarrow> flags AND SampleUnitSamples = SampleUnitSamples"
  "(flags OR SampleOperationSet) AND SampleUnitSeconds = SampleUnitSeconds
     \<longleftrightarrow> flags AND SampleUnitSeconds = SampleUnitSeconds"
  "(flags OR SampleOperationSet) AND SampleUnitPhase = SampleUnitPhase
     \<longleftrightarrow> flags AND SampleUnitPhase = SampleUnitPhase"
  "(flags OR SampleOperationSet) AND SampleModeAligned = SampleModeAligned
     \<longleftrightarrow> flags AND SampleModeAligned = SampleModeAligned"
  "(flags OR SampleOperationSet) AND SampleOperationAdd = SampleOperationAdd
     \<longleftrightarrow> flags AND SampleOperationAdd = SampleOperationAdd"
  "(flags OR SampleOperationSet) AND SampleOperationMultiply = SampleOperationMultiply
     \<longleftrightarrow> flags AND SampleOperationMultiply = SampleOperationMultiply"
  "(flags OR SampleOperationSet) AND SampleOperationSet = SampleOperationSet"
  by (simp_all add: bit.conj_disj_distrib2 SampleOperationSet_def SampleUnitSamples_def
        SampleUnitSeconds_def SampleUnitPhase_def SampleModeAligned_def SampleOperationAdd_def
        SampleOperationMultiply_def)

lemma sampleAtLocation_or_Set:
  "sampleAtLocation location (flags OR SampleOperationSet) d = sampleAtLocation location flags d"
  by (simp add: sampleAtLocation_def or_Set_flags)

lemma sampleAtLocation_buffer:
  "sampleAtLocation location flags (d\<lparr>buffer := b\<rparr>) = sampleAtLocation location flags d"
  by (simp add: sampleAtLocation_def)

lemma c_round_int: "\<exists>k. c_round x = of_int k"
  by (simp add: c_round_def)

lemma sampleAtLocation_aligned_int:
  assumes "flags AND SampleModeAligned = SampleModeAligned"
  shows "\<exists>k. sampleAtLocation location flags d = of_int k"
  using assms c_round_int by (simp add: sampleAtLocation_def Let_def)

lemma c_rem_inside: "0 \<le> k \<Longrightarrow> k < n \<Longrightarrow> c_rem k n = k"
  by (cases "k = 0") (simp_all add: c_rem_def)

lemma c_rem_neg_self: "0 < n \<Longrightarrow> c_rem (- n) n = 0"
  by (simp add: c_rem_def)


lemma tapIn_Set_aligned:
  assumes v: "v \<noteq> 0"
      and noadd: "flags AND SampleOperationAdd \<noteq> SampleOperationAdd"
      and nomul: "flags AND SampleOperationMultiply \<noteq> SampleOperationMultiply"
      and buf: "buffer d = Some xs" "int (length xs) = bufferLen d" "bufferLen d \<noteq> 0"
      and s: "sampleAtLocation location flags d = of_int k"
      and k: "(0 \<le> k \<and> k < bufferLen d) \<or> k = - bufferLen d"
  shows "tapIn location v (flags OR SampleOperationSet) d =
           Some (d\<lparr>buffer := Some (xs[nat (if k < 0 then k + bufferLen d else k) := v])\<rparr>)"
proof -
  have len: "0 < bufferLen d" using buf by linarith
  define pi where "pi = (if k < 0 then k + bufferLen d else k)"
  have pi: "0 \<le> pi" "pi < bufferLen d" using k len by (auto simp: pi_def)
  have nx: "c_rem k (bufferLen d) = pi"
    using k len by (auto simp: pi_def c_rem_inside c_rem_neg_self)
  show ?thesis
    using v noadd nomul buf pi nx pi_def
    by (simp add: tapIn_def sampleAtLocation_or_Set or_Set_flags s Let_def buffer_set_def)
qed

lemma tapOut_aligned:
  assumes buf: "buffer d = Some xs" "int (length xs) = bufferLen d" "bufferLen d \<noteq> 0"
      and s: "sampleAtLocation location flags d = of_int k"
      and k: "(0 \<le> k \<and> k < bufferLen d) \<or> k = - bufferLen d"
  shows "tapOut location flags d = Some (xs ! nat (if k < 0 then k + bufferLen d else k))"
proof -
  have len: "0 < bufferLen d" using buf by linarith
  define pi where "pi = (if k < 0 then k + bufferLen d else k)"
  have pi: "0 \<le> pi" "pi < bufferLen d" using k len by (auto simp: pi_def)
  have nx: "c_rem k (bufferLen d) = pi"
    using k len by (auto simp: pi_def c_rem_inside c_rem_neg_self)
  show ?thesis
    using buf pi nx pi_def
    by (simp add: tapOut_def s Let_def buffer_get_def)
qed

text \<open>
  Claim C6, where \<^verbatim>\<open>tapIn\<close> writes the sample that \<^verbatim>\<open>tapOut\<close> reads.  For every delay with a
  non-empty buffer, every value \<open>v\<close> other than 0, and every location, in any of the three
  units, that resolves to a sample inside the buffer: \<^verbatim>\<open>tapOut(location, flags)\<close> immediately after
  \<^verbatim>\<open>tapIn(location, v, flags | SampleOperationSet)\<close>, with \<^verbatim>\<open>SampleModeAligned\<close> in the flags and
  neither \<^verbatim>\<open>SampleOperationAdd\<close> nor \<^verbatim>\<open>SampleOperationMultiply\<close> (which take precedence over
  Set), returns exactly \<open>v\<close>.  A location resolves inside the buffer when the rounded
  sample position is an index of the buffer, or is minus the buffer length, which both
  index computations take to 0.
\<close>

theorem tapOut_after_tapIn_Set_returns_value:
  assumes "v \<noteq> 0"
      and "flags AND SampleModeAligned = SampleModeAligned"
      and "flags AND SampleOperationAdd \<noteq> SampleOperationAdd"
      and "flags AND SampleOperationMultiply \<noteq> SampleOperationMultiply"
      and "buffer d = Some xs" "int (length xs) = bufferLen d" "bufferLen d \<noteq> 0"
      and "(0 \<le> sampleAtLocation location flags d
              \<and> sampleAtLocation location flags d < of_int (bufferLen d))
           \<or> sampleAtLocation location flags d = - of_int (bufferLen d)"
  shows "\<exists>d'. tapIn location v (flags OR SampleOperationSet) d = Some d'
              \<and> tapOut location flags d' = Some v"
proof -
  obtain k where s: "sampleAtLocation location flags d = of_int k"
    using sampleAtLocation_aligned_int [OF assms(2)] by blast
  have k: "(0 \<le> k \<and> k < bufferLen d) \<or> k = - bufferLen d"
    using assms(8) unfolding s by (metis of_int_0_le_iff of_int_less_iff of_int_minus of_int_eq_iff)
  define pi where "pi = (if k < 0 then k + bufferLen d else k)"
  have len: "0 < bufferLen d" using assms(6,7) by linarith
  have pi: "0 \<le> pi" "pi < bufferLen d" using k len by (auto simp: pi_def)
  let ?d' = "d\<lparr>buffer := Some (xs[nat pi := v])\<rparr>"
  have tin: "tapIn location v (flags OR SampleOperationSet) d = Some ?d'"
    unfolding pi_def by (rule tapIn_Set_aligned [OF assms(1,3,4,5,6,7) s k])
  have s': "sampleAtLocation location flags ?d' = of_int k"
    using s by (simp add: sampleAtLocation_buffer)
  have "tapOut location flags ?d' = Some ((xs[nat pi := v]) ! nat pi)"
    using tapOut_aligned [of ?d' "xs[nat pi := v]" location flags k] s' k assms(6,7)
    by (simp add: pi_def)
  moreover have "(xs[nat pi := v]) ! nat pi = v"
    using pi assms(6) by (intro nth_list_update_eq) linarith
  ultimately show ?thesis using tin by simp
qed

lemmas flag_defs = SampleOperationSet_def SampleUnitSamples_def
        SampleUnitSeconds_def SampleUnitPhase_def SampleModeAligned_def SampleOperationAdd_def
        SampleOperationMultiply_def SampleModeInterpolated_def

lemma two_sample_delay_fields:
  "buffer two_sample_delay = Some [0, 0]"
  "bufferLen two_sample_delay = 2"
  "samples two_sample_delay = 2"
  "remainder two_sample_delay = 0"
  "insertIndex two_sample_delay = 0"
  by (simp_all add: two_sample_delay_def Delay_new_def setDelay_def Delay_init_def Processor_new_def
        Processor.extend_def Delay.fields_def Processor.defs Let_def flag_defs c_round_def
        fmod_def c_trunc_def numeral_2_eq_2)


lemma two_sample_delay_tapIn:
  "tapIn 0 5 (SampleUnitSamples OR SampleModeAligned OR SampleOperationSet) two_sample_delay
     = Some (two_sample_delay\<lparr>buffer := Some [5, 0]\<rparr>)"
  by (simp add: tapIn_def sampleAtLocation_def two_sample_delay_fields Let_def flag_defs
        c_round_def fmod_def c_trunc_def c_rem_def buffer_set_def)

text \<open>
  Claim C6 at the value 0.  The first test of \<^verbatim>\<open>tapIn\<close> returns at once when the value is
  0.0; its comment speaks of a value to add, but the test stands before the operation is
  looked at, so it also stops \<^verbatim>\<open>SampleOperationSet\<close>, which the header documents as replacing
  the existing value.  Setting a sample that holds 5 to 0 leaves the 5 in the buffer, and
  \<^verbatim>\<open>tapOut\<close> returns 5.
\<close>

theorem tapIn_zero_ignored_counterexample:
  "Option.bind
     (Option.bind
        (tapIn 0 5 (SampleUnitSamples OR SampleModeAligned OR SampleOperationSet)
           (Delay_new (1 / 64) None 2 (SampleUnitSamples OR SampleModeAligned) :: unit Delay))
        (tapIn 0 0 (SampleUnitSamples OR SampleModeAligned OR SampleOperationSet)))
     (tapOut 0 (SampleUnitSamples OR SampleModeAligned))
   = Some 5"
  unfolding two_sample_delay_def [symmetric] two_sample_delay_tapIn
  by (simp add: tapIn_def tapOut_def sampleAtLocation_def two_sample_delay_fields Let_def flag_defs
        c_round_def fmod_def c_trunc_def c_rem_def buffer_get_def)

text \<open>
  Where the rounded sample position equals the buffer length, \<^verbatim>\<open>tapIn\<close> writes one place
  past the end of the buffer: \<^verbatim>\<open>prevIndex\<close> is not reduced modulo the buffer length as
  \<^verbatim>\<open>nextIndex\<close> is.
\<close>

lemma tapIn_out_of_bounds:
  "tapIn (6 / 10) 1 (SampleUnitPhase OR SampleModeAligned OR SampleOperationSet)
     (two_sample_delay\<lparr>insertIndex := 1\<rparr>) = None"
  by (simp add: tapIn_def sampleAtLocation_def two_sample_delay_fields Let_def flag_defs
        c_round_def fmod_def c_trunc_def c_rem_def buffer_set_def)

theorem tapOut_after_tapIn_Set_returns_value_witness:
  "(3 :: real) \<noteq> 0
   \<and> (SampleUnitPhase OR SampleModeAligned) AND SampleModeAligned = SampleModeAligned
   \<and> (SampleUnitPhase OR SampleModeAligned) AND SampleOperationAdd \<noteq> SampleOperationAdd
   \<and> (SampleUnitPhase OR SampleModeAligned) AND SampleOperationMultiply \<noteq> SampleOperationMultiply
   \<and> buffer two_sample_delay = Some [0, 0]
   \<and> bufferLen two_sample_delay = 2
   \<and> sampleAtLocation 1 (SampleUnitPhase OR SampleModeAligned) two_sample_delay = 1
   \<and> (\<exists>d'. tapIn 1 3 (SampleUnitPhase OR SampleModeAligned OR SampleOperationSet) two_sample_delay = Some d'
           \<and> tapOut 1 (SampleUnitPhase OR SampleModeAligned) d' = Some 3)"
proof -
  have s: "sampleAtLocation 1 (SampleUnitPhase OR SampleModeAligned) two_sample_delay = 1"
    by (simp add: sampleAtLocation_def two_sample_delay_fields Let_def flag_defs
          c_round_def fmod_def c_trunc_def)
  have fl: "(SampleUnitPhase OR SampleModeAligned) AND SampleModeAligned = SampleModeAligned"
    "(SampleUnitPhase OR SampleModeAligned) AND SampleOperationAdd \<noteq> SampleOperationAdd"
    "(SampleUnitPhase OR SampleModeAligned) AND SampleOperationMultiply \<noteq> SampleOperationMultiply"
    by (simp_all add: flag_defs)
  show ?thesis
    using tapOut_after_tapIn_Set_returns_value
            [of 3 "SampleUnitPhase OR SampleModeAligned" two_sample_delay "[0, 0]" 1] s fl
    by (simp add: two_sample_delay_fields or.assoc)
qed

section \<open>Properties of the rectifier\<close>

lemma floor_shift: "0 < r \<Longrightarrow> \<lfloor>(d - r) / r\<rfloor> = \<lfloor>d / r\<rfloor> - 1" for d r :: real
  by (simp add: diff_divide_distrib)

lemma fmod_nonneg_eq: "0 \<le> d \<Longrightarrow> 0 < r \<Longrightarrow> fmod d r = d - r * of_int \<lfloor>d / r\<rfloor>"
  by (simp add: fmod_def c_trunc_def)

lemma fmod_shift: "r \<le> d \<Longrightarrow> 0 < r \<Longrightarrow> fmod (d - r) r = fmod d r"
  by (simp add: fmod_nonneg_eq floor_shift algebra_simps)

lemma fmod_small: "0 \<le> d \<Longrightarrow> d < r \<Longrightarrow> fmod d r = d"
proof -
  assume d: "0 \<le> d" "d < r"
  then have "\<lfloor>d / r\<rfloor> = 0" by (simp add: floor_eq_iff)
  then show ?thesis using d by (simp add: fmod_nonneg_eq)
qed

lemma c_rem_2_even: "0 \<le> k \<Longrightarrow> (c_rem k 2 = 0) = even k"
  by (auto simp: c_rem_def sgn_if)

lemma reflect_closed_form_below:
  assumes "lo < hi" "s < lo"
  shows "reflect_closed_form lo hi s =
           (if even \<lfloor>(lo - s) / (hi - lo)\<rfloor> then lo + fmod (lo - s) (hi - lo)
            else hi - fmod (lo - s) (hi - lo))"
proof -
  have "0 \<le> \<lfloor>(lo - s) / (hi - lo)\<rfloor>" using assms by simp
  then show ?thesis using assms by (simp add: reflect_closed_form_def Let_def)
qed

lemma reflect_closed_form_above:
  assumes "lo < hi" "hi < s"
  shows "reflect_closed_form lo hi s =
           (if even \<lfloor>(s - hi) / (hi - lo)\<rfloor> then hi - fmod (s - hi) (hi - lo)
            else lo + fmod (s - hi) (hi - lo))"
proof -
  have "0 \<le> \<lfloor>(s - hi) / (hi - lo)\<rfloor>" using assms by simp
  then show ?thesis using assms by (simp add: reflect_closed_form_def Let_def)
qed

lemma reflect_closed_form_inside: "lo \<le> s \<Longrightarrow> s \<le> hi \<Longrightarrow> reflect_closed_form lo hi s = s"
  by (simp add: reflect_closed_form_def Let_def)

lemma closed_form_unfold:
  fixes d r :: real
  assumes r: "0 < r" and d: "0 < d"
  shows "(if even \<lfloor>d / r\<rfloor> then a + fmod d r else b - fmod d r) =
           (if d < r then a + d
            else if d = r then b
            else (if even \<lfloor>(d - r) / r\<rfloor> then b - fmod (d - r) r else a + fmod (d - r) r))"
proof -
  consider "d < r" | "d = r" | "r < d" by linarith
  then show ?thesis
  proof cases
    case 1
    then have "\<lfloor>d / r\<rfloor> = 0" using d by (simp add: floor_eq_iff)
    then show ?thesis using 1 d by (simp add: fmod_small)
  next
    case 2
    then have "\<lfloor>d / r\<rfloor> = 1" "fmod d r = 0" using r by (simp_all add: fmod_nonneg_eq)
    then show ?thesis using 2 by simp
  next
    case 3
    then have "fmod (d - r) r = fmod d r" "\<lfloor>(d - r) / r\<rfloor> = \<lfloor>d / r\<rfloor> - 1"
      using r by (simp_all add: fmod_shift floor_shift)
    then show ?thesis using 3 by simp
  qed
qed

lemma reflect_closed_form_eq_reflect_iteratively:
  assumes "lo < hi"
  shows "reflect_closed_form lo hi s = reflect_iteratively lo hi s"
  using assms
proof (induction lo hi s rule: reflect_iteratively.induct)
  case (1 lo hi s)
  have r: "0 < hi - lo" using 1 by simp
  consider "s < lo" | "hi < s" | "lo \<le> s" "s \<le> hi" by linarith
  then show ?case
  proof cases
    case 1
    then have d: "0 < lo - s" by simp
    have "reflect_iteratively lo hi s = reflect_iteratively lo hi (lo + (lo - s))"
      using \<open>lo < hi\<close> 1 by simp
    also have "\<dots> = reflect_closed_form lo hi (lo + (lo - s))"
      using "1.IH"(1) \<open>lo < hi\<close> 1 by simp
    also have "\<dots> = reflect_closed_form lo hi s"
    proof -
      consider "lo - s < hi - lo" | "lo - s = hi - lo" | "hi - lo < lo - s" by linarith
      then show ?thesis
      proof cases
        case 1
        then show ?thesis
          using d r \<open>s < lo\<close> \<open>lo < hi\<close>
          by (simp add: reflect_closed_form_below closed_form_unfold reflect_closed_form_inside del: of_int_floor_cancel)
      next
        case 2
        then show ?thesis
          using d r \<open>s < lo\<close> \<open>lo < hi\<close>
          by (simp add: reflect_closed_form_below closed_form_unfold reflect_closed_form_inside)
      next
        case 3
        then have above: "hi < lo + (lo - s)" by simp
        have e: "lo + (lo - s) - hi = (lo - s) - (hi - lo)" by simp
        have "reflect_closed_form lo hi s =
                (if even \<lfloor>(lo - s - (hi - lo)) / (hi - lo)\<rfloor>
                 then hi - fmod (lo - s - (hi - lo)) (hi - lo)
                 else lo + fmod (lo - s - (hi - lo)) (hi - lo))"
          unfolding reflect_closed_form_below[OF \<open>lo < hi\<close> \<open>s < lo\<close>] closed_form_unfold[OF r d]
          using 3 by simp
        moreover have "reflect_closed_form lo hi (lo + (lo - s)) =
                (if even \<lfloor>(lo - s - (hi - lo)) / (hi - lo)\<rfloor>
                 then hi - fmod (lo - s - (hi - lo)) (hi - lo)
                 else lo + fmod (lo - s - (hi - lo)) (hi - lo))"
          unfolding reflect_closed_form_above[OF \<open>lo < hi\<close> above] e by (rule refl)
        ultimately show ?thesis by (simp only:)
      qed
    qed
    finally show ?thesis by simp
  next
    case 2
    then have d: "0 < s - hi" by simp
    have "reflect_iteratively lo hi s = reflect_iteratively lo hi (hi - (s - hi))"
      using \<open>lo < hi\<close> 2 by simp
    also have "\<dots> = reflect_closed_form lo hi (hi - (s - hi))"
      using "1.IH"(2) \<open>lo < hi\<close> 2 by simp
    also have "\<dots> = reflect_closed_form lo hi s"
    proof -
      consider "s - hi < hi - lo" | "s - hi = hi - lo" | "hi - lo < s - hi" by linarith
      then show ?thesis
      proof cases
        case 1
        then have "\<lfloor>(s - hi) / (hi - lo)\<rfloor> = 0" "fmod (s - hi) (hi - lo) = s - hi"
          using d r by (simp_all add: floor_eq_iff fmod_small)
        then have "reflect_closed_form lo hi s = hi - (s - hi)"
          unfolding reflect_closed_form_above[OF \<open>lo < hi\<close> \<open>hi < s\<close>] by simp
        moreover have "reflect_closed_form lo hi (hi - (s - hi)) = hi - (s - hi)"
          using 1 d by (intro reflect_closed_form_inside) simp_all
        ultimately show ?thesis by (simp only:)
      next
        case 2
        then have "\<lfloor>(s - hi) / (hi - lo)\<rfloor> = 1" "fmod (s - hi) (hi - lo) = 0"
          using r by (simp_all add: fmod_nonneg_eq)
        then have "reflect_closed_form lo hi s = lo"
          unfolding reflect_closed_form_above[OF \<open>lo < hi\<close> \<open>hi < s\<close>] by simp
        moreover have "reflect_closed_form lo hi (hi - (s - hi)) = hi - (s - hi)"
          using 2 d by (intro reflect_closed_form_inside) simp_all
        ultimately show ?thesis using 2 by simp
      next
        case 3
        then have below: "hi - (s - hi) < lo" by simp
        have e: "lo - (hi - (s - hi)) = (s - hi) - (hi - lo)" by simp
        have swap: "(if even k then a else b) = (if even (k - 1) then b else a)" for k :: int and a b :: real
          by simp
        have "reflect_closed_form lo hi s =
                (if even \<lfloor>(s - hi - (hi - lo)) / (hi - lo)\<rfloor>
                 then lo + fmod (s - hi - (hi - lo)) (hi - lo)
                 else hi - fmod (s - hi - (hi - lo)) (hi - lo))"
        proof -
          have F1: "fmod (s - hi) (hi - lo) = fmod (s - hi - (hi - lo)) (hi - lo)"
            using 3 r by (simp only: fmod_shift)
          have F2: "\<lfloor>(s - hi) / (hi - lo)\<rfloor> = \<lfloor>(s - hi - (hi - lo)) / (hi - lo)\<rfloor> + 1"
            using r by (simp only: floor_shift)
          show ?thesis
            unfolding reflect_closed_form_above[OF \<open>lo < hi\<close> \<open>hi < s\<close>] F1 F2 by simp
        qed
        moreover have "reflect_closed_form lo hi (hi - (s - hi)) =
                (if even \<lfloor>(s - hi - (hi - lo)) / (hi - lo)\<rfloor>
                 then lo + fmod (s - hi - (hi - lo)) (hi - lo)
                 else hi - fmod (s - hi - (hi - lo)) (hi - lo))"
          unfolding reflect_closed_form_below[OF \<open>lo < hi\<close> below] e by (rule refl)
        ultimately show ?thesis by (simp only:)
      qed
    qed
    finally show ?thesis by simp
  next
    case 3
    then show ?thesis using \<open>lo < hi\<close> by (simp add: reflect_closed_form_inside)
  qed
qed




lemma int_cast_of_int:
  "- (2 ^ 31) \<le> k \<Longrightarrow> k < 2 ^ 31 \<Longrightarrow> int_cast (of_int k) = Some k"
  by (simp add: int_cast_def c_trunc_def)

lemma Rectifier_exactD:
  assumes "Rectifier_exact lo hi s" "\<not> (lo \<le> s \<and> s \<le> hi)"
      and "delta = (if s < lo then lo - s else s - hi)"
  shows "to_float delta = Some delta"
    and "\<exists>q. to_float (delta / (hi - lo)) = Some q
             \<and> \<lfloor>q\<rfloor> = \<lfloor>delta / (hi - lo)\<rfloor> \<and> \<lfloor>q\<rfloor> < 2 ^ 31"
    and "to_float (reflect_closed_form lo hi s) = Some (reflect_closed_form lo hi s)"
  using assms unfolding Rectifier_exact_def is_float_def Let_def
  by (auto split: option.splits)

lemma Rectifier_fold_exact:
  assumes "lo < hi" "Rectifier_exact lo hi s"
  shows "Rectifier_fold lo hi s = Some (reflect_closed_form lo hi s)"
proof -
  have range: "to_float (hi - lo) = Some (hi - lo)" "0 < hi - lo"
    using assms by (simp_all add: Rectifier_exact_def is_float_def)
  consider "s < lo" | "hi < s" | "lo \<le> s" "s \<le> hi" by linarith
  then show ?thesis
  proof cases
    case 1
    then have out: "\<not> (lo \<le> s \<and> s \<le> hi)" and d: "lo - s = (if s < lo then lo - s else s - hi)"
      by simp_all
    note ex = Rectifier_exactD [OF assms(2) out d]
    from ex(2) obtain q where q: "to_float ((lo - s) / (hi - lo)) = Some q"
      "\<lfloor>q\<rfloor> = \<lfloor>(lo - s) / (hi - lo)\<rfloor>" "\<lfloor>q\<rfloor> < 2 ^ 31" by blast
    have k0: "0 \<le> \<lfloor>(lo - s) / (hi - lo)\<rfloor>" using 1 range(2) by simp
    have "- (2 ^ 31) \<le> \<lfloor>q\<rfloor>" using k0 q(2) by simp
    from int_cast_of_int [OF this q(3)]
    have cast: "int_cast (of_int \<lfloor>q\<rfloor>) = Some \<lfloor>(lo - s) / (hi - lo)\<rfloor>"
      unfolding q(2) .
    have "Rectifier_fold lo hi s =
            (if even \<lfloor>(lo - s) / (hi - lo)\<rfloor> then to_float (lo + fmod (lo - s) (hi - lo))
             else to_float (hi - fmod (lo - s) (hi - lo)))"
      using 1 range(2) k0
      by (simp add: Rectifier_fold_def range(1) ex(1) q(1) cast c_rem_2_even)
    also have "\<dots> = to_float (reflect_closed_form lo hi s)"
      unfolding reflect_closed_form_below [OF assms(1) 1] by simp
    finally show ?thesis unfolding ex(3) .
  next
    case 2
    then have out: "\<not> (lo \<le> s \<and> s \<le> hi)" and d: "s - hi = (if s < lo then lo - s else s - hi)"
      and nb: "\<not> s < lo"
      using assms(1) by simp_all
    note ex = Rectifier_exactD [OF assms(2) out d]
    from ex(2) obtain q where q: "to_float ((s - hi) / (hi - lo)) = Some q"
      "\<lfloor>q\<rfloor> = \<lfloor>(s - hi) / (hi - lo)\<rfloor>" "\<lfloor>q\<rfloor> < 2 ^ 31" by blast
    have k0: "0 \<le> \<lfloor>(s - hi) / (hi - lo)\<rfloor>" using 2 range(2) by simp
    have "- (2 ^ 31) \<le> \<lfloor>q\<rfloor>" using k0 q(2) by simp
    from int_cast_of_int [OF this q(3)]
    have cast: "int_cast (of_int \<lfloor>q\<rfloor>) = Some \<lfloor>(s - hi) / (hi - lo)\<rfloor>"
      unfolding q(2) .
    have "Rectifier_fold lo hi s =
            (if even \<lfloor>(s - hi) / (hi - lo)\<rfloor> then to_float (hi - fmod (s - hi) (hi - lo))
             else to_float (lo + fmod (s - hi) (hi - lo)))"
      using 2 nb range(2) k0
      by (simp add: Rectifier_fold_def range(1) ex(1) q(1) cast c_rem_2_even)
    also have "\<dots> = to_float (reflect_closed_form lo hi s)"
      unfolding reflect_closed_form_above [OF assms(1) 2] by simp
    finally show ?thesis unfolding ex(3) .
  next
    case 3
    then show ?thesis
      using range by (simp add: Rectifier_fold_def reflect_closed_form_inside)
  qed
qed

text \<open>
  The definitions that evaluate \<open>to_float\<close> at a number.
\<close>

lemmas float_eval = to_float_def float_round_def float_exponent_def pow2_def FLT_MAX_def
  bit_length.simps Let_def




text \<open>
  The first step of the source's own test.  The range is \<open>[0, 0.8]\<close>, where the float nearest
  to 0.8 is 13421773 / 16777216, and the saw delivers -1.  The arithmetic of the step is
  exact there, and the step returns 5033165 / 8388608, the float nearest to 0.6.
\<close>

lemma Rectifier_test_first_step:
  "to_float (8 / 10) = Some (13421773 / 16777216)
   \<and> Rectifier_exact 0 (13421773 / 16777216) (- 1)
   \<and> Rectifier_fold 0 (13421773 / 16777216) (- 1) = Some (5033165 / 8388608)
   \<and> reflect_iteratively 0 (13421773 / 16777216) (- 1) = 5033165 / 8388608
   \<and> to_float (6 / 10) = Some (5033165 / 8388608)"
proof -
  have f: "to_float (13421773 / 16777216) = Some (13421773 / 16777216)"
    "to_float 1 = Some 1"
    "to_float (16777216 / 13421773) = Some (5 / 4)"
    "to_float (5033165 / 8388608) = Some (5033165 / 8388608)"
    by (simp_all add: float_eval)
  have n: "to_float (8 / 10) = Some (13421773 / 16777216)"
    "to_float (6 / 10) = Some (5033165 / 8388608)"
    by (simp_all add: float_eval)
  have c: "reflect_closed_form 0 (13421773 / 16777216) (- 1) = 5033165 / 8388608"
    by (simp add: reflect_closed_form_def fmod_def c_trunc_def)
  have ex: "Rectifier_exact 0 (13421773 / 16777216) (- 1)"
    unfolding Rectifier_exact_def is_float_def c by (simp add: f)
  have r: "Rectifier_fold 0 (13421773 / 16777216) (- 1) = Some (5033165 / 8388608)"
    using Rectifier_fold_exact [OF _ ex] c by simp
  have i: "reflect_iteratively 0 (13421773 / 16777216) (- 1) = 5033165 / 8388608"
    using reflect_closed_form_eq_reflect_iteratively [of 0 "13421773 / 16777216" "- 1"] c by simp
  show ?thesis by (intro conjI) (rule n(1), rule ex, rule r, rule i, rule n(2))
qed

section \<open>Properties of the oscillator phase\<close>

text \<open>
  Claim C8 fails for a negative frequency: \<^verbatim>\<open>Oscillator::step\<close> wraps the phase only when it
  reaches 1.0, so one step at -64 Hz with a step time of 1/64 leaves the phase at -1.
\<close>

theorem Oscillator_negative_frequency_counterexample:
  "phase (fst (snd (Oscillator_step_f (1 / 64) (- 64) (Oscillator_new 0)))) = - 1"
  by (simp add: Oscillator_step_f_def Oscillator_step_def Oscillator_new_def Let_def)

lemma updateWaveTable_keeps:
  assumes "updateWaveTable STEP_TIME a = Some a'"
  shows "phase a' = phase a" "frequency a' = frequency a"
  using assms
  by (auto simp: updateWaveTable_def Let_def split: if_splits option.splits)

lemma Additive_step_phase:
  assumes "0 \<le> STEP_TIME" "0 \<le> frequency a" "0 \<le> phase a" "phase a < 1"
      and "Additive_step STEP_TIME a = Some (v, a', w)"
  shows "0 \<le> phase a' \<and> phase a' < 1"
proof (cases "frequency a = 0 \<or> partialCount a < 1")
  case True
  then show ?thesis using assms by (simp add: Additive_step_def)
next
  case False
  then obtain b ps where b: "updateWaveTable STEP_TIME a = Some b"
    and a': "a' = fst (snd (Oscillator_step STEP_TIME (b\<lparr>partials := ps\<rparr>)))"
    using assms(5)
    by (auto simp: Additive_step_def Let_def split: option.splits prod.splits if_splits)
       (metis fst_conv snd_conv)
  let ?c = "b\<lparr>partials := ps\<rparr>"
  have "0 \<le> frequency ?c" "0 \<le> phase ?c" "phase ?c < 1"
    using updateWaveTable_keeps [OF b] assms by simp_all
  then show ?thesis
    using Oscillator_step_phase(1,2) [of STEP_TIME ?c] assms(1) unfolding a' by blast
qed

lemma generator_step_phase:
  assumes "0 \<le> STEP_TIME" "generator_phase g = Some ph" "0 \<le> ph" "ph < 1" "0 \<le> f"
  shows "case generator_step STEP_TIME rand (generator_set_frequency f g) of
           Some (v, g', w) \<Rightarrow>
             (\<exists>ph'. generator_phase g' = Some ph' \<and> 0 \<le> ph' \<and> ph' < 1)
             \<and> ((\<exists>a. g' = G_Additive a) = (\<exists>a. g = G_Additive a))
         | None \<Rightarrow> (\<exists>a. g = G_Additive a)"
proof (cases g)
  case (G_Oscillator x)
  then show ?thesis
    using assms Oscillator_step_phase(1,2) [of STEP_TIME "x\<lparr>frequency := f\<rparr>"]
    by (simp add: wrap_step_def split_beta)
next
  case (G_Sine x)
  then show ?thesis
    using assms Oscillator_step_phase(1,2) [of STEP_TIME "x\<lparr>frequency := f\<rparr>"]
    by (simp add: wrap_step_def Sine_step_def Let_def split_beta)
next
  case (G_Pulse x)
  then show ?thesis
    using assms Oscillator_step_phase(1,2) [of STEP_TIME "x\<lparr>frequency := f\<rparr>"]
    by (simp add: wrap_step_def Pulse_step_def Let_def split_beta)
next
  case (G_Saw x)
  then show ?thesis
    using assms Oscillator_step_phase(1,2) [of STEP_TIME "x\<lparr>frequency := f\<rparr>"]
    by (simp add: wrap_step_def Saw_step_def Let_def split_beta)
next
  case (G_Triangle x)
  then show ?thesis
    using assms Oscillator_step_phase(1,2) [of STEP_TIME "x\<lparr>frequency := f\<rparr>"]
    by (simp add: wrap_step_def Triangle_step_def Let_def split_beta)
next
  case (G_Interpolated x)
  have "\<And>v. 0 \<le> phase (fst (snd (Oscillator_step STEP_TIME (x\<lparr>frequency := f, value_interp := v\<rparr>))))
            \<and> phase (fst (snd (Oscillator_step STEP_TIME (x\<lparr>frequency := f, value_interp := v\<rparr>)))) < 1"
    using assms G_Interpolated
      Oscillator_step_phase(1,2) [of STEP_TIME "x\<lparr>frequency := f, value_interp := v\<rparr>" for v]
    by simp
  then show ?thesis
    using G_Interpolated
    by (simp add: wrap_step_def Interpolated_step_def Let_def split_beta)
next
  case (G_Additive x)
  show ?thesis
  proof (cases "Additive_step STEP_TIME (x\<lparr>frequency := f\<rparr>)")
    case None
    then show ?thesis using G_Additive by simp
  next
    case (Some r)
    obtain v a' w where r: "r = (v, a', w)" by (cases r)
    have "0 \<le> phase a' \<and> phase a' < 1"
      using Additive_step_phase [of STEP_TIME "x\<lparr>frequency := f\<rparr>" v a' w] assms G_Additive Some r
      by simp
    then show ?thesis using G_Additive Some r by (simp add: wrap_step_def)
  qed
qed (use assms in simp_all)

text \<open>
  Claim C8, amended.  With a step time that is not negative, for every oscillator (the
  base class, sine, pulse, saw, triangle, interpolated, additive) whose phase lies in \<open>[0, 1)\<close>, and every
  sequence of \<^verbatim>\<open>step\<close> calls with frequencies assigned between the calls that are not
  negative, the phase lies in \<open>[0, 1)\<close> after the calls.  Every oscillator but the additive
  one completes each call; the additive one may fail in its wave table instead.
\<close>

theorem generator_run_phase_in_unit_interval:
  assumes "0 \<le> STEP_TIME"
      and "generator_phase g = Some ph" "0 \<le> ph" "ph < 1"
      and "\<forall>(f, rand) \<in> set script. 0 \<le> f"
  shows "case generator_run STEP_TIME script g of
           Some (vs, g') \<Rightarrow> (\<exists>ph'. generator_phase g' = Some ph' \<and> 0 \<le> ph' \<and> ph' < 1)
         | None \<Rightarrow> (\<exists>a. g = G_Additive a)"
  using assms(2-5)
proof (induction script arbitrary: g ph)
  case Nil
  then show ?case by simp
next
  case (Cons x script)
  obtain f rand where x: "x = (f, rand)" by (cases x)
  have f: "0 \<le> f" using Cons.prems(4) x by simp
  note one = generator_step_phase [OF assms(1) Cons.prems(1-3) f, of rand]
  show ?case
  proof (cases "generator_step STEP_TIME rand (generator_set_frequency f g)")
    case None
    then show ?thesis using one x by simp
  next
    case (Some r)
    obtain v g1 w where r: "r = (v, g1, w)" by (cases r)
    from one Some r obtain ph1 where g1: "generator_phase g1 = Some ph1" "0 \<le> ph1" "ph1 < 1"
      and kind: "(\<exists>a. g1 = G_Additive a) = (\<exists>a. g = G_Additive a)"
      by auto
    have rest: "\<forall>(f, rand) \<in> set script. 0 \<le> f" using Cons.prems(4) by auto
    note IH = Cons.IH [OF g1 rest]
    show ?thesis
      using IH kind Some r x by (auto split: option.splits)
  qed
qed

theorem generator_run_phase_in_unit_interval_witness:
  "(0::real) \<le> 1 / 64
   \<and> generator_phase (G_Saw (Oscillator_new 0)) = Some 0
   \<and> list_all (\<lambda>(f, rand). 0 \<le> f) [(24 :: real, \<lambda>i :: nat. 0 :: int), (40, \<lambda>i. 0), (16, \<lambda>i. 0)]
   \<and> (case generator_run (1 / 64) [(24, \<lambda>i. 0), (40, \<lambda>i. 0), (16, \<lambda>i. 0)] (G_Saw (Oscillator_new 0)) of
         Some (vs, g') \<Rightarrow> generator_phase g' = Some (1 / 4)
       | None \<Rightarrow> False)"
  using generator_run_phase_in_unit_interval
          [of "1 / 64" "G_Saw (Oscillator_new 0)" 0 "[(24, \<lambda>i. 0), (40, \<lambda>i. 0), (16, \<lambda>i. 0)]"]
  by (simp add: wrap_step_def Saw_step_def Oscillator_step_def Oscillator_new_def Let_def fmod_def c_trunc_def)

section \<open>Properties of the event loop\<close>

text \<open>
  Claim C9.  For every incoming event whose timestamp exceeds \<^verbatim>\<open>sample_count\<close>, the loop of
  \<^verbatim>\<open>run\<close> passes the timestamp unchanged to \<^verbatim>\<open>write_samples\<close> as the end of the segment before
  the event, and continues from it: the statement \<^verbatim>\<open>if (event_sample > sample_count)
  event_sample = event_sample;\<close> changes nothing.  In the instance below a block of 4 samples with an
  event at frame 6 is rendered without a patch into a buffer of 8 samples: the samples at
  the indices 4 and 5, past the block, are written too.
\<close>

theorem run_event_timestamp_not_clamped:
  assumes "sample_count < word_of_int (time_frames ev)"
  shows "run_event sample_count ev (self, start_sample) =
           (case write_samples self start_sample (word_of_int (time_frames ev)) of
              None \<Rightarrow> None
            | Some self' \<Rightarrow> Some (receive_event ev self', word_of_int (time_frames ev)))"
  using assms by (simp add: run_event_def Let_def)


theorem run_event_timestamp_not_clamped_witness:
  "(4 :: 32 word) < word_of_int (time_frames \<lparr>time_frames = 6, body = OtherEvent\<rparr>)
   \<and> map_option snd
        (run_event 4 \<lparr>time_frames = 6, body = OtherEvent\<rparr>
           (connect_port CSYNTH_OUT (\<lambda>i. 1) 8 (instantiate 48000 host_map :: unit Csynth), 0))
      = Some 6
   \<and> map_option (\<lambda>(self, t). map (out self) [0..<8])
        (run_event 4 \<lparr>time_frames = 6, body = OtherEvent\<rparr>
           (connect_port CSYNTH_OUT (\<lambda>i. 1) 8 (instantiate 48000 host_map :: unit Csynth), 0))
      = Some [0, 0, 0, 0, 0, 0, 1, 1]"
  using run_event_timestamp_not_clamped
          [of 4 "\<lparr>time_frames = 6, body = OtherEvent\<rparr>"
              "connect_port CSYNTH_OUT (\<lambda>i. 1) 8 (instantiate 48000 host_map :: unit Csynth)" 0]
  by (simp add: write_samples_def connect_port_def instantiate_def receive_event_def
        memset_zero_def Let_def upt_rec)

section \<open>Properties of the delay line\<close>

lemma Delay_init_unallocated: "buffer (Delay_init pr) = None" "bufferLen (Delay_init pr) = 0"
  by (simp_all add: Delay_init_def Processor.extend_def Delay.fields_def Processor.defs)

lemma c_round_nonpos: "x \<le> 0 \<Longrightarrow> c_round x \<le> 0"
  by (auto simp: c_round_def ceiling_le_iff intro: order_trans)

lemma setDelay_nonpositive_unallocated:
  assumes "length0 \<le> 0" "0 < STEP_TIME"
      and "flags AND SampleUnitSamples = SampleUnitSamples \<or> flags AND SampleUnitSeconds = SampleUnitSeconds"
  shows "buffer (setDelay STEP_TIME length0 flags d) = None"
    and "bufferLen (setDelay STEP_TIME length0 flags d) = 0"
proof -
  have neg: "length0 / STEP_TIME \<le> 0" using assms(1,2) by (simp add: divide_nonpos_pos)
  have r1: "c_round (length0 / STEP_TIME) \<le> 0" and r2: "c_round length0 \<le> 0"
    using neg assms(1) by (simp_all add: c_round_nonpos)
  show "buffer (setDelay STEP_TIME length0 flags d) = None"
    and "bufferLen (setDelay STEP_TIME length0 flags d) = 0"
    using assms neg r1 r2 by (auto simp: setDelay_def Let_def not_less)
qed

text \<open>
  Claim C10.  A delay whose buffer is unallocated or of zero length acts as a wire:
  \<^verbatim>\<open>step\<close> returns the sample of \<^verbatim>\<open>Processor::step\<close> unchanged, that is the source's sample when
  a source is connected (the source advancing by one step), and 0.0 without a source.  The
  two lemmas above show how such a delay arises: no delay time was ever set, or \<^verbatim>\<open>setDelay\<close>
  was called with a length that is not positive.
\<close>

theorem Delay_step_unallocated_is_wire:
  assumes "buffer d = None \<or> bufferLen d = 0"
  shows "Delay_step src_step d =
           (case source d of
              None \<Rightarrow> Some (0, d)
            | Some g \<Rightarrow> Some (fst (src_step g), d\<lparr>source := Some (snd (src_step g))\<rparr>))"
  using assms
  by (auto simp: Delay_step_def Processor_step_def Let_def split_beta split: option.splits)


lemma setDelay_source: "source (setDelay STEP_TIME length0 flags d) = source d"
  by (simp add: setDelay_def Let_def split_beta split: option.splits)

theorem Delay_step_unallocated_is_wire_witness:
  "(buffer (setDelay (1 / 64) (- 1) SampleUnitSeconds (Delay_init (Processor_new (Some (7 :: real))))) = None
      \<or> bufferLen (setDelay (1 / 64) (- 1) SampleUnitSeconds (Delay_init (Processor_new (Some (7 :: real))))) = 0)
   \<and> map_option fst
        (Delay_step (\<lambda>g. (g, g + 1))
           (setDelay (1 / 64) (- 1) SampleUnitSeconds (Delay_init (Processor_new (Some 7))))) = Some 7"
proof -
  let ?d = "setDelay (1 / 64) (- 1) SampleUnitSeconds (Delay_init (Processor_new (Some (7 :: real))))"
  have b: "buffer ?d = None"
    by (rule setDelay_nonpositive_unallocated) simp_all
  have src: "source ?d = Some 7"
    by (simp add: setDelay_source Delay_init_def Processor_new_def
          Processor.extend_def Delay.fields_def Processor.defs)
  show ?thesis
    using Delay_step_unallocated_is_wire [of ?d "\<lambda>g. (g, g + 1)"] b src by simp
qed

end
